theory Spec2Isabelle
  imports Complex_Main
begin

section \<open>Python string and number primitives used by the installer\<close>

text \<open>
  A string is a list of characters and a character is a code point below 256 (Latin-1,
  whose lower half is ASCII). The character classes below are Python's classes on that
  range; code points from 256 on are outside the model.
\<close>

definition is_space :: "char \<Rightarrow> bool" where
  \<comment> \<open>\<^verbatim>\<open>str.isspace\<close> on one character: TAB, LF, VT, FF, CR, FS, GS, RS, US, space, NEL and
      the no-break space.\<close>
  "is_space c = (of_char c \<in> {9, 10, 11, 12, 13, 28, 29, 30, 31, 32, 133, 160 :: int})"

definition is_decimal :: "char \<Rightarrow> bool" where
  \<comment> \<open>\<^verbatim>\<open>str.isdecimal\<close> on one character: the digits that \<^verbatim>\<open>int\<close> reads.\<close>
  "is_decimal c = (48 \<le> (of_char c :: int) \<and> (of_char c :: int) \<le> 57)"

definition is_digit :: "char \<Rightarrow> bool" where
  \<comment> \<open>\<^verbatim>\<open>str.isdigit\<close> on one character: the decimal digits and the superscripts two,
      three and one, which \<^verbatim>\<open>int\<close> does not read.\<close>
  "is_digit c = (is_decimal c \<or> of_char c \<in> {178, 179, 185 :: int})"

definition digit_val :: "char \<Rightarrow> int" where
  "digit_val c = of_char c - 48"

definition strip :: "string \<Rightarrow> string" where
  \<comment> \<open>\<^verbatim>\<open>s.strip()\<close>\<close>
  "strip s = rev (dropWhile is_space (rev (dropWhile is_space s)))"

definition lower_char :: "char \<Rightarrow> char" where
  \<comment> \<open>The capital letters are A to Z and, in the upper half, 192 to 222 without the
      multiplication sign 215.\<close>
  "lower_char c =
     (if (65 \<le> (of_char c :: int) \<and> (of_char c :: int) \<le> 90)
         \<or> (192 \<le> (of_char c :: int) \<and> (of_char c :: int) \<le> 222 \<and> (of_char c :: int) \<noteq> 215)
      then char_of ((of_char c :: int) + 32) else c)"

definition lower :: "string \<Rightarrow> string" where
  \<comment> \<open>\<^verbatim>\<open>s.lower()\<close>\<close>
  "lower s = map lower_char s"

fun starts_with :: "string \<Rightarrow> string \<Rightarrow> bool" where
  "starts_with s [] = True"
| "starts_with [] (p # ps) = False"
| "starts_with (c # s) (p # ps) = (c = p \<and> starts_with s ps)"

fun contains :: "string \<Rightarrow> string \<Rightarrow> bool" where
  \<comment> \<open>\<^verbatim>\<open>sub in s\<close>\<close>
  "contains [] sub = (sub = [])"
| "contains (c # s) sub = (starts_with (c # s) sub \<or> contains s sub)"

definition isdigit :: "string \<Rightarrow> bool" where
  \<comment> \<open>\<^verbatim>\<open>s.isdigit()\<close>: non-empty and every character a digit.\<close>
  "isdigit s = (s \<noteq> [] \<and> list_all is_digit s)"

definition isdecimal :: "string \<Rightarrow> bool" where
  \<comment> \<open>\<^verbatim>\<open>s.isdecimal()\<close>: non-empty and every character one of 0 to 9.\<close>
  "isdecimal s = (s \<noteq> [] \<and> list_all is_decimal s)"

subsection \<open>\<^verbatim>\<open>str(n)\<close> and \<^verbatim>\<open>int(s)\<close>\<close>

definition digit_char :: "int \<Rightarrow> char" where
  "digit_char d = ''0123456789'' ! nat d"

function str_digits :: "int \<Rightarrow> string" where
  \<comment> \<open>The decimal digits of a number that is not negative.\<close>
  "str_digits n =
     (if n < 10 then [digit_char n] else str_digits (n div 10) @ [digit_char (n mod 10)])"
  by pat_completeness auto
termination
  by (relation "measure nat") auto

declare str_digits.simps [simp del]

definition str_int :: "int \<Rightarrow> string" where
  \<comment> \<open>\<^verbatim>\<open>str(i)\<close> for a Python int: decimal digits, a leading minus sign when negative.\<close>
  "str_int i = (if i < 0 then CHR ''-'' # str_digits (- i) else str_digits i)"

fun digits_value :: "int \<Rightarrow> string \<Rightarrow> int option" where
  \<comment> \<open>The digit groups of an integer literal after its first digit: a single underscore
      may stand between two digits.\<close>
  "digits_value acc [] = Some acc"
| "digits_value acc [c] = (if is_decimal c then Some (acc * 10 + digit_val c) else None)"
| "digits_value acc (c # d # cs) =
     (if is_decimal c then digits_value (acc * 10 + digit_val c) (d # cs)
      else if c = CHR ''_'' \<and> is_decimal d then digits_value acc (d # cs)
      else None)"

definition unsigned_value :: "string \<Rightarrow> int option" where
  "unsigned_value s =
     (case s of [] \<Rightarrow> None
      | c # cs \<Rightarrow> if is_decimal c then digits_value (digit_val c) cs else None)"

definition py_int :: "string \<Rightarrow> int option" where
  \<comment> \<open>\<^verbatim>\<open>int(s)\<close> in base 10; \<open>None\<close> is ValueError. Surrounding whitespace is ignored, one
      sign is allowed, digits may be grouped by single underscores.\<close>
  "py_int s =
     (case strip s of
        [] \<Rightarrow> None
      | c # cs \<Rightarrow>
          if c = CHR ''-'' then map_option uminus (unsigned_value cs)
          else if c = CHR ''+'' then unsigned_value cs
          else unsigned_value (c # cs))"

subsection \<open>\<^verbatim>\<open>round(x, 2)\<close>\<close>

text \<open>
  The installer's RAM figure is a Python float. It is modelled by the decimal number
  with two fractional digits that the float denotes: \<^verbatim>\<open>round(x, 2)\<close> rounds the exact
  value of \<open>x\<close> to the nearest multiple of 0.01, a tie going to the even multiple, and
  returns the float nearest to that decimal. The quotient \<^verbatim>\<open>mem_kb / (1024 * 1024)\<close> is
  exact in binary floating point for every \<open>mem_kb\<close> below \<open>2 ^ 53\<close> in magnitude, since
  the divisor is a power of two. Comparing the float with 100 gives the same answer as
  comparing the decimal with 100.
\<close>

definition round_half_even :: "rat \<Rightarrow> int" where
  "round_half_even x =
     (let f = \<lfloor>x\<rfloor>; r = x - of_int f
      in if r < 1 / 2 then f else if 1 / 2 < r then f + 1 else if even f then f else f + 1)"

definition py_round2 :: "rat \<Rightarrow> rat" where
  "py_round2 x = of_int (round_half_even (x * 100)) / 100"

text \<open>
  True division of a Python int by \<open>1024 * 1024\<close> yields the binary64 number nearest
  to the exact quotient (ties to even) and raises OverflowError when that is out of
  range. Scaling by a power of two does not change which significand is nearest, so
  the quotient is the dividend rounded to 53 significant bits, over \<open>2 ^ 20\<close>.
\<close>

function bit_length :: "int \<Rightarrow> nat" where
  \<comment> \<open>The number of binary digits of a number that is not negative.\<close>
  "bit_length n = (if n \<le> 0 then 0 else Suc (bit_length (n div 2)))"
  by pat_completeness auto
termination
  by (relation "measure nat") auto

declare bit_length.simps [simp del]

definition round_to_53_bits :: "int \<Rightarrow> int" where
  "round_to_53_bits n =
     (if bit_length n \<le> 53 then n
      else
        let shift = bit_length n - 53;
            q = n div 2 ^ shift;
            r = n mod 2 ^ shift;
            half = 2 ^ (shift - 1)
        in (if half < r \<or> (r = half \<and> odd q) then q + 1 else q) * 2 ^ shift)"

definition div_mebi :: "int \<Rightarrow> rat option" where
  \<comment> \<open>\<^verbatim>\<open>mem_kb / (1024 * 1024)\<close>; \<open>None\<close> is OverflowError.\<close>
  "div_mebi k =
     (let m = round_to_53_bits \<bar>k\<bar>
      in if 2 ^ 1044 \<le> m then None
         else Some (of_int (if k < 0 then - m else m) / (1024 * 1024)))"

subsection \<open>Splitting\<close>

definition is_linebreak :: "char \<Rightarrow> bool" where
  \<comment> \<open>The line boundaries of \<^verbatim>\<open>str.splitlines\<close>: LF, VT, FF, CR, FS, GS, RS and NEL.\<close>
  "is_linebreak c = (of_char c \<in> {10, 11, 12, 13, 28, 29, 30, 133 :: int})"

fun splitlines_from :: "string \<Rightarrow> string \<Rightarrow> string list" where
  \<comment> \<open>\<open>cur\<close> is the current line, reversed. CR LF is one boundary; no empty last line.\<close>
  "splitlines_from cur [] = (if cur = [] then [] else [rev cur])"
| "splitlines_from cur [c] = (if is_linebreak c then [rev cur] else [rev (c # cur)])"
| "splitlines_from cur (c # d # s) =
     (if c = CHR 0x0D \<and> d = CHR 0x0A then rev cur # splitlines_from [] s
      else if is_linebreak c then rev cur # splitlines_from [] (d # s)
      else splitlines_from (c # cur) (d # s))"

definition splitlines :: "string \<Rightarrow> string list" where
  \<comment> \<open>\<^verbatim>\<open>s.splitlines()\<close>\<close>
  "splitlines s = splitlines_from [] s"

fun split_ws_from :: "string \<Rightarrow> string \<Rightarrow> string list" where
  "split_ws_from cur [] = (if cur = [] then [] else [rev cur])"
| "split_ws_from cur (c # s) =
     (if is_space c then (if cur = [] then split_ws_from [] s else rev cur # split_ws_from [] s)
      else split_ws_from (c # cur) s)"

definition split_ws :: "string \<Rightarrow> string list" where
  \<comment> \<open>\<^verbatim>\<open>s.split()\<close>: the maximal runs of non-whitespace characters.\<close>
  "split_ws s = split_ws_from [] s"

function split_on_from :: "string \<Rightarrow> string \<Rightarrow> string \<Rightarrow> string list" where
  "split_on_from sep cur [] = [rev cur]"
| "split_on_from sep cur (c # s) =
     (if starts_with (c # s) sep then rev cur # split_on_from sep [] (drop (length sep - 1) s)
      else split_on_from sep (c # cur) s)"
  by pat_completeness auto
termination
  by (relation "measure (\<lambda>(sep, cur, s). length s)") auto

definition split_on :: "string \<Rightarrow> string \<Rightarrow> string list" where
  \<comment> \<open>\<^verbatim>\<open>s.split(sep)\<close> for a non-empty separator, as every call of the installer passes.\<close>
  "split_on sep s = split_on_from sep [] s"

subsection \<open>\<^verbatim>\<open>os.path\<close> on POSIX paths\<close>

definition path_join :: "string \<Rightarrow> string \<Rightarrow> string" where
  \<comment> \<open>\<^verbatim>\<open>os.path.join(a, b)\<close>\<close>
  "path_join a b =
     (if starts_with b ''/'' then b
      else if a = [] \<or> last a = CHR ''/'' then a @ b
      else a @ ''/'' @ b)"

definition basename :: "string \<Rightarrow> string" where
  \<comment> \<open>\<^verbatim>\<open>os.path.basename(p)\<close>: what follows the last slash.\<close>
  "basename p = rev (takeWhile (\<lambda>c. c \<noteq> CHR ''/'') (rev p))"

section \<open>Project configuration\<close>

definition BASE_APK_RELEASE_URL :: string where
  "BASE_APK_RELEASE_URL = ''https://github.com/AleXDE54/liteageOS/releases/download/APKS/''"

definition LINEAGEOS_COMPONENTS :: "(string \<times> string \<times> bool) list" where
  \<comment> \<open>The dictionary in insertion order: APK filename, description, optional.\<close>
  "LINEAGEOS_COMPONENTS =
     [(''Music.apk'', ''Music Player'', False),
      (''Phone.apk'', ''Phone App'', False),
      (''Files.apk'', ''File Manager'', False),
      (''Browser.apk'', ''Web Browser'', False),
      (''Calc.apk'', ''Calculator'', False),
      (''Recorder.apk'', ''Audio Recorder'', False),
      (''Calender.apk'', ''Calendar'', False),
      (''Gallery.apk'', ''Gallery Viewer'', False),
      (''Aurora.apk'', ''Aurora Store (App Store)'', True)]"

definition LAUNCHERS :: "(string \<times> string) list" where
  "LAUNCHERS =
     [(''Litechair.apk'', ''Litechair (Modern Lawnchair Fork)''),
      (''Litechair_legacy.apk'', ''Litechair Legacy (Android 5.0 Design)'')]"

definition WALLPAPER_FILENAME :: string where
  "WALLPAPER_FILENAME = ''wallpaper.jpg''"

definition ADB_PATH :: string where
  "ADB_PATH = ''adb''"

definition AAPT_PATH :: string where
  "AAPT_PATH = ''aapt''"

definition TEMP_DIR :: string where
  "TEMP_DIR = ''apks''"

section \<open>The world outside the script\<close>

text \<open>
  The script talks to three collaborators: external processes (adb, aapt), the HTTP
  server holding the assets, and the user at the console. Their answers are taken from
  an \<open>environment\<close>; each answer may depend on everything the script has done so far
  (the \<open>trace\<close>). The script's own state is the \<open>world\<close>: the files and directories it
  can see, the global flag \<^verbatim>\<open>aapt_available\<close>, the trace of external effects, the log
  and the lines still to be read from the console.
\<close>

datatype level = INFO | WARNING | ERROR | CRITICAL

datatype proc_result =
    Completed string string
  | CalledProcessError "string option" "string option"
  | FileNotFoundError

text \<open>
  \<open>Completed out err\<close>: exit status 0 with the given stdout and stderr.
  \<open>CalledProcessError out err\<close>: non-zero exit status (\<^verbatim>\<open>check=True\<close>); the streams are
  present only when they were captured. \<open>FileNotFoundError\<close>: the binary is not on the
  execution path.
\<close>

datatype fetch_result =
    GetFailed
  | BadStatus
  | Streamed "string list" bool

text \<open>
  \<open>GetFailed\<close>: \<^verbatim>\<open>requests.get\<close> raises a RequestException. \<open>BadStatus\<close>:
  \<^verbatim>\<open>raise_for_status\<close> raises. \<open>Streamed chunks ok\<close>: \<^verbatim>\<open>iter_content\<close> yields the chunks
  and then ends normally (\<open>ok\<close>) or raises a RequestException (\<open>\<not> ok\<close>).
\<close>

datatype event = Exec "string list" | Fetch string

datatype exn =
    SystemExit int | EOFError | AttributeError | TypeError | ValueError | OverflowError

datatype pyval = PStr string | PBool bool

record environment =
  proc :: "event list \<Rightarrow> string list \<Rightarrow> proc_result"
  http :: "event list \<Rightarrow> string \<Rightarrow> fetch_result"
  set_order :: "string list \<Rightarrow> string list"

text \<open>
  \<open>set_order env xs\<close> is the order in which Python iterates over \<^verbatim>\<open>set(xs)\<close>; the
  language leaves it open, so properties that need it assume only that it lists every
  element of \<open>xs\<close> once.
\<close>

record world =
  files :: "string \<rightharpoonup> string"
  dirs :: "string set"
  aapt_available :: bool
  trace :: "event list"
  logged :: "(level \<times> string) list"
  stdin :: "string list"

type_synonym 'a result = "(exn + 'a) \<times> world"

definition andThen :: "'a result \<Rightarrow> ('a \<Rightarrow> world \<Rightarrow> 'b result) \<Rightarrow> 'b result" where
  \<comment> \<open>Sequencing: an exception of the first computation ends the second.\<close>
  "andThen r f = (case r of (Inl e, w) \<Rightarrow> (Inl e, w) | (Inr a, w) \<Rightarrow> f a w)"

fun truthy :: "pyval \<Rightarrow> bool" where
  "truthy (PStr s) = (s \<noteq> [])"
| "truthy (PBool b) = b"

definition logging :: "level \<Rightarrow> string \<Rightarrow> world \<Rightarrow> world" where
  \<comment> \<open>A logging call. An f-string is logged as its source text, placeholders unexpanded.\<close>
  "logging lv msg w = w\<lparr>logged := logged w @ [(lv, msg)]\<rparr>"

definition print_step :: "string \<Rightarrow> world \<Rightarrow> world" where
  "print_step message w = logging INFO (''\<newline>--- '' @ message @ '' ---'') w"

definition input :: "world \<Rightarrow> string result" where
  \<comment> \<open>\<^verbatim>\<open>input(prompt)\<close>: the next console line; EOFError when there is none.\<close>
  "input w = (case stdin w of [] \<Rightarrow> (Inl EOFError, w) | l # ls \<Rightarrow> (Inr l, w\<lparr>stdin := ls\<rparr>))"

definition path_exists :: "world \<Rightarrow> string \<Rightarrow> bool" where
  \<comment> \<open>\<^verbatim>\<open>os.path.exists(p)\<close>\<close>
  "path_exists w p = (files w p \<noteq> None \<or> p \<in> dirs w)"

definition makedirs :: "string \<Rightarrow> world \<Rightarrow> world" where
  "makedirs d w = w\<lparr>dirs := insert d (dirs w)\<rparr>"

section \<open>Command Runner\<close>

definition log_completed :: "string \<Rightarrow> string \<Rightarrow> bool \<Rightarrow> world \<Rightarrow> world" where
  \<comment> \<open>The log lines of \<^verbatim>\<open>run_command\<close> after a command whose output was captured.\<close>
  "log_completed out err suppress_error w =
     (let w = (if out \<noteq> [] then logging INFO ''{tool_name} Output (stdout): {result.stdout.strip()}'' w
               else w)
      in if err \<noteq> [] then logging WARNING ''{tool_name} Error (stderr): {result.stderr.strip()}'' w
         else if \<not> suppress_error \<and> out = []
           then logging WARNING ''{tool_name} Error (stdout/stderr): (empty)'' w
         else w)"

definition log_called_process_error :: "string option \<Rightarrow> string option \<Rightarrow> world \<Rightarrow> world" where
  "log_called_process_error out err w =
     (let nonempty = (\<lambda>x. x \<noteq> None \<and> x \<noteq> Some []);
          w = logging ERROR ''Error executing {tool_name} command: {e}'' w;
          w = (if nonempty out then logging ERROR ''Stdout: {e.stdout.strip()}'' w else w);
          w = (if nonempty err then logging ERROR ''Stderr: {e.stderr.strip()}'' w else w)
      in if \<not> nonempty out \<and> \<not> nonempty err
         then logging ERROR ''Error output (stdout/stderr) is empty or unavailable.'' w
         else w)"

definition log_file_not_found :: "string \<Rightarrow> world \<Rightarrow> world" where
  "log_file_not_found tool_name w =
     (let w = logging CRITICAL ''Error: Command '{command[0]}' ({tool_name}) not found.'' w
      in if tool_name = ''AAPT'' then
           logging CRITICAL
             ''Please install Android SDK Build-Tools and ensure 'aapt' is available in your system PATH.''
             (logging CRITICAL ''Automatic package name detection is not possible without AAPT.'' w)
         else logging CRITICAL ''Ensure ADB is installed and added to your system PATH.'' w)"

definition run_command ::
  "environment \<Rightarrow> string list \<Rightarrow> bool \<Rightarrow> bool \<Rightarrow> string \<Rightarrow> world \<Rightarrow> pyval result" where
  \<comment> \<open>\<^verbatim>\<open>sys.exit(1)\<close> stands after the if/else on the tool name: it is reached for AAPT
      and for ADB alike.\<close>
  "run_command env command check_output suppress_error tool_name w =
     (let w = logging INFO ''Executing {tool_name} command: {' '.join(full_command)}'' w;
          r = proc env (trace w) command;
          w = w\<lparr>trace := trace w @ [Exec command]\<rparr>
      in case r of
           Completed out err \<Rightarrow>
             if check_output then (Inr (PStr (strip out)), log_completed out err suppress_error w)
             else (Inr (PBool True), w)
         | CalledProcessError out err \<Rightarrow> (Inr (PBool False), log_called_process_error out err w)
         | FileNotFoundError \<Rightarrow> (Inl (SystemExit 1), log_file_not_found tool_name w))"

section \<open>Capability Prober\<close>

definition check_aapt_availability :: "environment \<Rightarrow> world \<Rightarrow> bool result" where
  "check_aapt_availability env w =
     (let w = print_step ''Checking AAPT Availability'' w
      in andThen (run_command env [AAPT_PATH, ''version''] True True ''AAPT'' w) (\<lambda>r w.
           if truthy r then
             let w = w\<lparr>aapt_available := True\<rparr>;
                 w = logging INFO ''AAPT found. Automatic package name detection will work.'' w
             in (Inr (aapt_available w), w)
           else
             let w = w\<lparr>aapt_available := False\<rparr>;
                 w = logging WARNING
                       ''AAPT not found. Automatic package name detection will be unavailable.'' w;
                 w = logging WARNING
                       ''You might need to manually set the default launcher and verify package names for uninstallation.'' w;
                 w = logging WARNING
                       ''To install AAPT: download Android SDK Command-line Tools from developer.android.com/studio/releases/platform-tools'' w;
                 w = logging WARNING
                       ''Unzip and add the path to the 'build-tools' folder to your system PATH.'' w
             in (Inr (aapt_available w), w)))"

section \<open>Package Identifier\<close>

datatype 'a loop = Return 'a | Raised | Fallthrough

text \<open>
  The outcome of a \<^verbatim>\<open>for\<close> loop whose body may return: \<open>Return v\<close> when it returned
  \<open>v\<close>, \<open>Raised\<close> when the body raised an exception that the enclosing handler
  catches, \<open>Fallthrough\<close> when the loop ran to its end.
\<close>

fun scan_badging :: "string list \<Rightarrow> string loop" where
  \<comment> \<open>The loop over the lines of \<^verbatim>\<open>aapt dump badging\<close>. Indexing the split with 1
      raises IndexError when the line has no \<^verbatim>\<open>name='\<close>.\<close>
  "scan_badging [] = Fallthrough"
| "scan_badging (line # rest) =
     (if contains line ''package: name='' then
        (case split_on (''name='' @ [CHR 0x27]) line of
           _ # after # _ \<Rightarrow>
             (case split_on [CHR 0x27] after of
                package_name # _ \<Rightarrow> Return package_name
              | [] \<Rightarrow> Raised)
         | _ \<Rightarrow> Raised)
      else scan_badging rest)"

definition get_package_name_from_apk ::
  "environment \<Rightarrow> string \<Rightarrow> world \<Rightarrow> string option result" where
  \<comment> \<open>\<^verbatim>\<open>except Exception\<close> catches what the parsing raises; it does not catch the
      SystemExit of \<^verbatim>\<open>run_command\<close>.\<close>
  "get_package_name_from_apk env apk_path w =
     (if \<not> aapt_available w then
        (Inr None,
         logging WARNING ''AAPT is unavailable. Cannot automatically determine package name.'' w)
      else
        let w = logging INFO
                  ''Determining package name for {os.path.basename(apk_path)} using aapt...'' w;
            failed = (\<lambda>w. (Inr None,
                       logging WARNING
                         ''Failed to determine package name for {os.path.basename(apk_path)}. Please check the APK file.'' w));
            caught = (\<lambda>w. (Inr None,
                       logging ERROR ''Error extracting package name from {apk_path}: {e}'' w))
        in andThen
             (run_command env [AAPT_PATH, ''dump'', ''badging'', apk_path] True True ''AAPT'' w)
             (\<lambda>output w.
                case output of
                  PBool b \<Rightarrow> if b then caught w else failed w
                | PStr s \<Rightarrow>
                    if s \<noteq> [] then
                      (case scan_badging (splitlines s) of
                         Return package_name \<Rightarrow>
                           (Inr (Some package_name),
                            logging INFO
                              ''Package name for {os.path.basename(apk_path)}: {package_name}'' w)
                       | Raised \<Rightarrow> caught w
                       | Fallthrough \<Rightarrow> failed w)
                    else failed w))"

section \<open>Asset Resolver\<close>

fun write_chunks :: "string list \<Rightarrow> string \<Rightarrow> string" where
  \<comment> \<open>The loop \<^verbatim>\<open>for chunk in ...: f.write(chunk)\<close> on the content of the open file.\<close>
  "write_chunks [] content = content"
| "write_chunks (chunk # rest) content = write_chunks rest (content @ chunk)"

definition download_file ::
  "environment \<Rightarrow> string \<Rightarrow> string \<Rightarrow> string \<Rightarrow> world \<Rightarrow> string option result" where
  \<comment> \<open>\<^verbatim>\<open>open(filepath, 'wb')\<close> creates the file empty before the first chunk arrives; an
      exception while streaming leaves what was written.\<close>
  "download_file env url filename target_dir w =
     (let w = (if \<not> path_exists w target_dir
               then logging INFO ''Created directory: {target_dir}'' (makedirs target_dir w)
               else w);
          filepath = path_join target_dir filename
      in if path_exists w filepath then
           (Inr (Some filepath),
            logging INFO ''File '{filename}' already exists in '{target_dir}'. Skipping download.'' w)
         else
           let w = logging INFO ''Downloading {filename} from {url} to {target_dir}...'' w;
               response = http env (trace w) url;
               w = w\<lparr>trace := trace w @ [Fetch url]\<rparr>;
               caught = (\<lambda>w. (Inr None, logging ERROR ''Error downloading {filename}: {e}'' w))
           in case response of
                GetFailed \<Rightarrow> caught w
              | BadStatus \<Rightarrow> caught w
              | Streamed chunks ok \<Rightarrow>
                  let w = w\<lparr>files := (files w)(filepath \<mapsto> write_chunks chunks [])\<rparr>
                  in if ok then
                       (Inr (Some filepath), logging INFO ''Successfully downloaded {filename}.'' w)
                     else caught w)"

section \<open>Device actions\<close>

definition push_and_install_apk ::
  "environment \<Rightarrow> string \<Rightarrow> string \<Rightarrow> world \<Rightarrow> bool result" where
  "push_and_install_apk env local_path remote_path w =
     (let filename = basename local_path;
          remote_apk_path = path_join remote_path filename;
          w = logging INFO ''Pushing {filename} to device...'' w
      in andThen
           (run_command env [ADB_PATH, ''push'', local_path, remote_apk_path] False False ''ADB'' w)
           (\<lambda>pushed w.
              if \<not> truthy pushed then
                (Inr False, logging ERROR ''Failed to push {filename} to device.'' w)
              else
                let w = logging INFO ''Installing {filename}...'' w
                in andThen
                     (run_command env
                        [ADB_PATH, ''shell'', ''pm'', ''install'', ''-r'', remote_apk_path]
                        False False ''ADB'' w)
                     (\<lambda>installed w.
                        if \<not> truthy installed then
                          (Inr False,
                           logging ERROR
                             ''Try to find a 'universal' APK for this app or install it manually.''
                             (logging ERROR
                                ''Error installing {filename}. It might require manual installation, or the app is already installed with a different signature, or it's a split-APK.'' w))
                        else (Inr True, logging INFO ''Successfully installed {filename}.'' w))))"

definition set_default_launcher :: "environment \<Rightarrow> string option \<Rightarrow> world \<Rightarrow> bool result" where
  \<comment> \<open>\<^verbatim>\<open>not package_name\<close> holds for None and for the empty string.\<close>
  "set_default_launcher env package_name w =
     (case package_name of
        Some name \<Rightarrow>
          if name = [] then
            (Inr False,
             logging INFO
               ''Please set the default launcher manually: Settings -> Apps -> Default apps -> Home app -> {Your Launcher Name}.''
               (logging ERROR ''Cannot set default launcher: package name not determined.'' w))
          else
            let w = logging INFO ''Attempting to set {package_name} as default launcher...'' w
            in andThen
                 (run_command env
                    [ADB_PATH, ''shell'', ''cmd'', ''package'', ''set-home-activity'', name]
                    False False ''ADB'' w)
                 (\<lambda>r w.
                    if truthy r then
                      (Inr True,
                       logging INFO ''Successfully set {package_name} as default launcher.'' w)
                    else
                      (Inr False,
                       logging INFO
                         ''You might need to do this manually: Settings -> Apps -> Default apps -> Home app -> {Your Launcher Name}.''
                         (logging ERROR
                            ''Failed to set {package_name} as default launcher automatically.'' w)))
      | None \<Rightarrow>
          (Inr False,
           logging INFO
             ''Please set the default launcher manually: Settings -> Apps -> Default apps -> Home app -> {Your Launcher Name}.''
             (logging ERROR ''Cannot set default launcher: package name not determined.'' w)))"

definition set_wallpaper :: "environment \<Rightarrow> string \<Rightarrow> world \<Rightarrow> bool result" where
  "set_wallpaper env local_image_path w =
     (let remote_wallpaper_path = ''/sdcard/Download/'' @ basename local_image_path;
          w = logging INFO
                ''Pushing wallpaper {os.path.basename(local_image_path)} to device at {remote_wallpaper_path}...'' w
      in andThen
           (run_command env [ADB_PATH, ''push'', local_image_path, remote_wallpaper_path]
              False False ''ADB'' w)
           (\<lambda>pushed w.
              if \<not> truthy pushed then
                (Inr False,
                 logging ERROR
                   ''Failed to push wallpaper {os.path.basename(local_image_path)} to device.'' w)
              else
                let w = logging INFO ''Attempting to set wallpaper from {remote_wallpaper_path}...'' w
                in andThen
                     (run_command env
                        [ADB_PATH, ''shell'', ''cmd'', ''wallpaper'', ''set'', remote_wallpaper_path]
                        False False ''ADB'' w)
                     (\<lambda>r w.
                        if truthy r then (Inr True, logging INFO ''Wallpaper successfully set.'' w)
                        else
                          (Inr False,
                           logging INFO
                             ''Please set the wallpaper manually: open 'Gallery' or 'Files' app on your phone, find '{os.path.basename(local_image_path)}' in 'Download' folder and set it as wallpaper.''
                             (logging ERROR ''Failed to set wallpaper automatically.'' w)))))"

section \<open>Device Profiler\<close>

definition version_from_sdk :: "pyval \<Rightarrow> world \<Rightarrow> int option result" where
  \<comment> \<open>The second half of \<^verbatim>\<open>get_android_os_version\<close>: what it makes of the output of
      \<^verbatim>\<open>getprop ro.build.version.sdk\<close>.\<close>
  "version_from_sdk sdk_version_str w =
     (let failed = (\<lambda>w. (Inr None,
                      logging ERROR ''Failed to get Android OS version from getprop.'' w))
      in case sdk_version_str of
           PBool b \<Rightarrow> if b then (Inl AttributeError, w) else failed w
         | PStr s \<Rightarrow>
             if s \<noteq> [] \<and> isdigit (strip s) then
               let w = logging INFO ''Android Version (API Level): {sdk_version_str.strip()}'' w
               in case py_int (strip s) of
                    None \<Rightarrow> (Inl ValueError, w)
                  | Some api_level \<Rightarrow>
                      if api_level \<ge> 34 then (Inr (Some 14), w)
                      else if api_level = 33 then (Inr (Some 13), w)
                      else if api_level = 32 then (Inr (Some 12), w)
                      else if api_level = 31 then (Inr (Some 12), w)
                      else if api_level = 30 then (Inr (Some 11), w)
                      else if api_level = 29 then (Inr (Some 10), w)
                      else if api_level = 28 then (Inr (Some 9), w)
                      else if api_level = 27 then (Inr (Some 8), w)
                      else if api_level = 26 then (Inr (Some 8), w)
                      else (Inr (Some api_level),
                            logging WARNING
                              ''Unknown API Level: {api_level}. Returning API level as version.'' w)
             else failed w)"

definition get_android_os_version :: "environment \<Rightarrow> world \<Rightarrow> int option result" where
  "get_android_os_version env w =
     (let w = logging INFO ''Getting Android OS version...'' w;
          try_api_level =
            (\<lambda>w. andThen
                    (run_command env [ADB_PATH, ''shell'', ''getprop'', ''ro.build.version.sdk'']
                       True True ''ADB'' w)
                    version_from_sdk)
      in andThen
           (run_command env [ADB_PATH, ''shell'', ''getprop'', ''ro.build.version.release'']
              True True ''ADB'' w)
           (\<lambda>release_version_str w.
              case release_version_str of
                PBool b \<Rightarrow> if b then (Inl AttributeError, w) else try_api_level w
              | PStr s \<Rightarrow>
                  if s \<noteq> [] then
                    (case py_int (strip s) of
                       Some v \<Rightarrow> (Inr (Some v), w)
                     | None \<Rightarrow>
                         try_api_level
                           (logging WARNING
                              ''Could not convert Android release version '{release_version_str.strip()}' to number. Attempting to get API level.'' w))
                  else try_api_level w))"

fun scan_meminfo :: "string list \<Rightarrow> world \<Rightarrow> rat option loop \<times> world" where
  \<comment> \<open>The loop over the lines of /proc/meminfo. ValueError and IndexError are caught in
      the body, which then returns None; the OverflowError of the division is not.\<close>
  "scan_meminfo [] w = (Fallthrough, w)"
| "scan_meminfo (line # rest) w =
     (if contains line ''MemTotal:'' then
        (let failed = (Return None,
                       logging ERROR ''Failed to parse MemTotal from line: {line}'' w)
         in case split_ws line of
              _ # token # _ \<Rightarrow>
                (case py_int token of
                   Some mem_kb \<Rightarrow>
                     (case div_mebi mem_kb of
                        Some ratio \<Rightarrow>
                          (Return (Some (py_round2 ratio)),
                           logging INFO ''Total RAM: {mem_gb} GB.'' w)
                      | None \<Rightarrow> (Raised, w))
                 | None \<Rightarrow> failed)
            | _ \<Rightarrow> failed)
      else scan_meminfo rest w)"

definition get_device_ram_gb :: "environment \<Rightarrow> world \<Rightarrow> rat option result" where
  "get_device_ram_gb env w =
     (let w = logging INFO ''Getting total device RAM...'' w;
          failed = (\<lambda>w. (Inr None, logging ERROR ''Failed to get RAM information.'' w))
      in andThen
           (run_command env [ADB_PATH, ''shell'', ''cat'', ''/proc/meminfo''] True True ''ADB'' w)
           (\<lambda>meminfo_output w.
              case meminfo_output of
                PBool b \<Rightarrow> if b then (Inl AttributeError, w) else failed w
              | PStr s \<Rightarrow>
                  if s \<noteq> [] then
                    (case scan_meminfo (splitlines s) w of
                       (Return mem_gb, w) \<Rightarrow> (Inr mem_gb, w)
                     | (Raised, w) \<Rightarrow> (Inl OverflowError, w)
                     | (Fallthrough, w) \<Rightarrow> failed w)
                  else failed w))"

section \<open>Install Orchestrator\<close>

definition install_launcher :: "environment \<Rightarrow> bool \<Rightarrow> string \<Rightarrow> world \<Rightarrow> unit result" where
  \<comment> \<open>The launcher part of \<^verbatim>\<open>install_liteageos_components\<close>. The caller passes a
      launcher filename whenever \<open>install_launcher_action\<close> holds; otherwise the argument
      is not read.\<close>
  "install_launcher env install_launcher_action chosen_launcher_apk w =
     (let w = print_step ''Installing Launcher'' w
      in if install_launcher_action then
           let w = logging INFO ''Selected launcher: {chosen_launcher_apk}'' w;
               launcher_url = BASE_APK_RELEASE_URL @ chosen_launcher_apk;
               not_downloaded =
                 (\<lambda>w. (Inr (),
                    logging INFO ''Skipping launcher installation.''
                      (logging ERROR
                         ''Failed to download launcher '{chosen_launcher_apk}'. Check URL or internet connection.'' w)));
               no_package_name =
                 (\<lambda>w. (Inr (),
                    logging INFO
                      ''Please ensure your selected launcher APK is a valid APK file and that AAPT is working correctly.''
                      (logging ERROR
                         ''ERROR: Failed to determine package name for {chosen_launcher_apk}. Setting default launcher might not work.'' w)));
               with_package_name =
                 (\<lambda>downloaded_path launcher_package_name w.
                    andThen
                      (run_command env [ADB_PATH, ''shell'', ''pm'', ''path'', launcher_package_name]
                         True True ''ADB'' w)
                      (\<lambda>is_installed_on_device w.
                         let absent =
                               (\<lambda>w.
                                  let w = logging INFO
                                            ''Launcher '{launcher_package_name}' not found on device. Proceeding with installation.'' w
                                  in andThen
                                       (push_and_install_apk env downloaded_path ''/data/local/tmp/'' w)
                                       (\<lambda>ok w.
                                          if ok then
                                            andThen
                                              (set_default_launcher env (Some launcher_package_name)
                                                 (logging INFO
                                                    ''Launcher installed. Now attempting to set it as the default launcher.'' w))
                                              (\<lambda>_ w. (Inr (), w))
                                          else
                                            (Inr (),
                                             logging INFO
                                               ''Try to find a 'universal' APK for this launcher or install it manually.''
                                               (logging ERROR
                                                  ''Failed to install launcher. Check messages above. It might be a split-APK requiring full build, or a signature conflict.'' w))));
                             present =
                               (\<lambda>w.
                                  let w = logging INFO
                                            ''\<newline>Detected already installed launcher with package name '{launcher_package_name}'.'' w
                                  in andThen (input w)
                                       (\<lambda>answer w.
                                          let make_default = lower answer
                                          in if make_default = ''y'' then
                                               andThen
                                                 (set_default_launcher env
                                                    (Some launcher_package_name) w)
                                                 (\<lambda>_ w. (Inr (), w))
                                             else
                                               (Inr (),
                                                logging INFO
                                                  ''Skipping setting default launcher as it's already installed and you chose not to make it primary.'' w)))
                         in case is_installed_on_device of
                              PBool b \<Rightarrow> if b then (Inl TypeError, w) else absent w
                            | PStr s \<Rightarrow>
                                if s \<noteq> [] \<and> contains s ''package:'' then present w
                                else absent w))
           in andThen (download_file env launcher_url chosen_launcher_apk TEMP_DIR w)
                (\<lambda>downloaded_path w.
                   case downloaded_path of
                     None \<Rightarrow> not_downloaded w
                   | Some path \<Rightarrow>
                       if path = [] then not_downloaded w
                       else
                         andThen (get_package_name_from_apk env path w)
                           (\<lambda>launcher_package_name w.
                              case launcher_package_name of
                                None \<Rightarrow> no_package_name w
                              | Some name \<Rightarrow>
                                  if name = [] then no_package_name w
                                  else with_package_name path name w))
         else (Inr (), logging INFO ''Skipping launcher installation as per user choice.'' w))"

definition install_app ::
  "environment \<Rightarrow> string \<Rightarrow> string \<Rightarrow> string \<Rightarrow> bool \<Rightarrow> world \<Rightarrow> unit result" where
  \<comment> \<open>The body of the loop over \<^verbatim>\<open>LINEAGEOS_COMPONENTS\<close>, after the launcher check.\<close>
  "install_app env install_optional_apps_config apk_filename description optional w =
     (let install_app = ''n'';
          install_app =
            (if \<not> optional then ''y''
             else if optional \<and> install_optional_apps_config = ''y'' then ''y''
             else install_app)
      in if install_app = ''y'' then
           let w = logging INFO ''\<newline>Installing {description} ({apk_filename})...'' w;
               app_url = BASE_APK_RELEASE_URL @ apk_filename;
               not_downloaded =
                 (\<lambda>w. (Inr (), logging ERROR ''Failed to download {description}. Check URL.'' w))
           in andThen (download_file env app_url apk_filename TEMP_DIR w)
                (\<lambda>local_path w.
                   case local_path of
                     None \<Rightarrow> not_downloaded w
                   | Some path \<Rightarrow>
                       if path = [] then not_downloaded w
                       else
                         andThen (get_package_name_from_apk env path w)
                           (\<lambda>package_name_for_app w.
                              andThen (push_and_install_apk env path ''/data/local/tmp/'' w)
                                (\<lambda>ok w.
                                   (Inr (),
                                    if ok then
                                      logging INFO ''{description} successfully installed.'' w
                                    else w))))
         else (Inr (), logging INFO ''Skipping installation of {description}.'' w))"

fun install_apps ::
  "environment \<Rightarrow> string \<Rightarrow> (string \<times> string \<times> bool) list \<Rightarrow> world \<Rightarrow> unit result" where
  "install_apps env install_optional_apps_config [] w = (Inr (), w)"
| "install_apps env install_optional_apps_config ((apk_filename, description, optional) # rest) w =
     (if apk_filename \<in> set (map fst LAUNCHERS) then
        install_apps env install_optional_apps_config rest w
      else
        andThen (install_app env install_optional_apps_config apk_filename description optional w)
          (\<lambda>_. install_apps env install_optional_apps_config rest))"

definition install_wallpaper :: "environment \<Rightarrow> world \<Rightarrow> unit result" where
  "install_wallpaper env w =
     (let w = print_step ''Installing Wallpaper'' w;
          wallpaper_url = BASE_APK_RELEASE_URL @ WALLPAPER_FILENAME;
          not_downloaded =
            (\<lambda>w. (Inr (),
               logging ERROR ''Failed to download wallpaper file. Wallpaper will not be set.'' w))
      in andThen (download_file env wallpaper_url WALLPAPER_FILENAME TEMP_DIR w)
           (\<lambda>local_wallpaper_path w.
              case local_wallpaper_path of
                None \<Rightarrow> not_downloaded w
              | Some path \<Rightarrow>
                  if path = [] then not_downloaded w
                  else andThen (set_wallpaper env path w) (\<lambda>_ w. (Inr (), w))))"

definition install_liteageos_components ::
  "environment \<Rightarrow> bool \<Rightarrow> string \<Rightarrow> string \<Rightarrow> world \<Rightarrow> unit result" where
  "install_liteageos_components env install_launcher_action chosen_launcher_apk
       install_optional_apps_config w =
     andThen (install_launcher env install_launcher_action chosen_launcher_apk w)
       (\<lambda>_ w.
          andThen
            (install_apps env install_optional_apps_config LINEAGEOS_COMPONENTS
               (print_step ''Installing LineageOS Applications'' w))
            (\<lambda>_ w.
               andThen (install_wallpaper env w)
                 (\<lambda>_ w.
                    (Inr (),
                     logging INFO
                       ''Please check your phone. Additional manual launcher setup might be required.''
                       (logging INFO ''\<newline>--- LiteageOS Installation Complete! ---'' w)))))"

section \<open>Uninstall Orchestrator\<close>

definition collect_package ::
  "environment \<Rightarrow> string \<Rightarrow> string list \<Rightarrow> world \<Rightarrow> string list result" where
  \<comment> \<open>The body of the loop over the component filenames: a best-effort download, whose
      result is not used, then the package name of whatever file is there.\<close>
  "collect_package env apk_filename packages_to_uninstall w =
     (let local_path = path_join TEMP_DIR apk_filename
      in andThen
           (if \<not> path_exists w local_path
            then download_file env (BASE_APK_RELEASE_URL @ apk_filename) apk_filename TEMP_DIR w
            else (Inr None, w))
           (\<lambda>_ w.
              if path_exists w local_path then
                andThen (get_package_name_from_apk env local_path w)
                  (\<lambda>package_name w.
                     let unnamed =
                           (Inr packages_to_uninstall,
                            logging WARNING
                              ''Failed to determine package name for {apk_filename}. Skipping uninstallation.'' w)
                     in case package_name of
                          None \<Rightarrow> unnamed
                        | Some name \<Rightarrow>
                            if name = [] then unnamed
                            else (Inr (packages_to_uninstall @ [name]), w))
              else
                (Inr packages_to_uninstall,
                 logging WARNING
                   ''File {apk_filename} not found locally to determine package name. Skipping uninstallation.'' w)))"

fun collect_packages ::
  "environment \<Rightarrow> string list \<Rightarrow> string list \<Rightarrow> world \<Rightarrow> string list result" where
  "collect_packages env [] packages_to_uninstall w = (Inr packages_to_uninstall, w)"
| "collect_packages env (apk_filename # rest) packages_to_uninstall w =
     andThen (collect_package env apk_filename packages_to_uninstall w)
       (collect_packages env rest)"

definition packages_to_uninstall :: "environment \<Rightarrow> world \<Rightarrow> string list result" where
  \<comment> \<open>The list built by \<^verbatim>\<open>wipe_liteageos_components\<close> before it uninstalls anything:
      the two launcher packages, the resolved components, the three forced packages.\<close>
  "packages_to_uninstall env w =
     (let packages = [];
          packages = packages @ [''app.lawnchair.nightly''];
          packages = packages @ [''ch.deletescape.lawnchair'']
      in andThen (collect_packages env (map fst LINEAGEOS_COMPONENTS) packages w)
           (\<lambda>packages w.
              let packages = packages @ [''org.lineageos.etar''];
                  packages = packages @ [''org.lineageos.aperture.dev''];
                  packages = packages @ [''com.android.deskclock'']
              in (Inr packages, w)))"

definition uninstall_command :: "string \<Rightarrow> string list" where
  "uninstall_command package = [ADB_PATH, ''shell'', ''pm'', ''uninstall'', ''--user'', ''0'', package]"

fun uninstall_all :: "environment \<Rightarrow> string list \<Rightarrow> world \<Rightarrow> unit result" where
  \<comment> \<open>The loop over \<^verbatim>\<open>set(packages_to_uninstall)\<close>, in the order given.\<close>
  "uninstall_all env [] w = (Inr (), w)"
| "uninstall_all env (package # rest) w =
     (let w = logging INFO ''Attempting to uninstall package: {package}'' w
      in andThen (run_command env (uninstall_command package) False True ''ADB'' w)
           (\<lambda>r w.
              uninstall_all env rest
                (if truthy r then
                   logging INFO ''Package {package} successfully uninstalled (for current user).'' w
                 else
                   logging WARNING
                     ''Failed to uninstall package {package}. It might not be installed or is a system app.'' w)))"

definition wipe_liteageos_components :: "environment \<Rightarrow> world \<Rightarrow> unit result" where
  "wipe_liteageos_components env w =
     (let w = print_step ''Starting LiteageOS Uninstallation Function'' w
      in andThen (input w)
           (\<lambda>answer w.
              let confirm = lower answer
              in if confirm \<noteq> ''y'' then
                   (Inr (), logging INFO ''Uninstallation cancelled by user.'' w)
                 else
                   andThen (packages_to_uninstall env w)
                     (\<lambda>packages w.
                        let w = print_step ''Uninstalling LiteageOS components...'' w
                        in andThen (uninstall_all env (set_order env packages) w)
                             (\<lambda>_ w.
                                (Inr (),
                                 logging INFO ''LiteageOS uninstallation process complete.'' w)))))"

section \<open>Version Predictor\<close>

definition calculate_liteageos_version :: "int option \<Rightarrow> bool \<Rightarrow> bool \<Rightarrow> string" where
  "calculate_liteageos_version android_version_num has_arm8 is_memory_less_than_100gb =
     (let version = [];
          version = (case android_version_num of
                       Some n \<Rightarrow> version @ str_int (n + 10)
                     | None \<Rightarrow> version @ ''???'');
          version = (if has_arm8 then version @ ''+'' else version);
          version = (if is_memory_less_than_100gb then version @ ''S'' else version)
      in version)"

definition predicted_liteage_version :: "int option \<Rightarrow> bool \<Rightarrow> rat option \<Rightarrow> string" where
  \<comment> \<open>The menu loop of \<^verbatim>\<open>main\<close>: the RAM flag is False unless the RAM was resolved.\<close>
  "predicted_liteage_version android_os_version has_arm8_support total_ram_gb =
     (let is_memory_less_than_100gb = False;
          is_memory_less_than_100gb =
            (case total_ram_gb of
               Some r \<Rightarrow> r < 100
             | None \<Rightarrow> is_memory_less_than_100gb)
      in calculate_liteageos_version android_os_version has_arm8_support
           is_memory_less_than_100gb)"

section \<open>Notions used to state the properties\<close>

definition new_events :: "world \<Rightarrow> world \<Rightarrow> event list" where
  \<comment> \<open>The external effects between an earlier world and a later one.\<close>
  "new_events w w' = drop (length (trace w)) (trace w')"

definition binaries_present :: "environment \<Rightarrow> bool" where
  \<comment> \<open>Every binary the script calls is on the execution path.\<close>
  "binaries_present env = (\<forall>tr cmd. proc env tr cmd \<noteq> FileNotFoundError)"

definition release_unreadable :: "proc_result \<Rightarrow> bool" where
  \<comment> \<open>The release-version property is absent or is not an integer.\<close>
  "release_unreadable r =
     (case r of
        Completed out err \<Rightarrow> py_int out = None
      | CalledProcessError out err \<Rightarrow> True
      | FileNotFoundError \<Rightarrow> False)"

definition advances :: "world \<Rightarrow> world \<Rightarrow> event set \<Rightarrow> bool" where
  \<comment> \<open>The later world comes from the earlier one by effects drawn from \<open>S\<close>; nothing that
      existed has disappeared, nothing logged is lost and the AAPT flag is unchanged.\<close>
  "advances w w' S \<longleftrightarrow>
     (\<exists>evs. trace w' = trace w @ evs \<and> set evs \<subseteq> S)
     \<and> (\<forall>p. path_exists w p \<longrightarrow> path_exists w' p)
     \<and> set (logged w) \<subseteq> set (logged w')
     \<and> aapt_available w' = aapt_available w"

definition push_command :: "string \<Rightarrow> string list" where
  \<comment> \<open>The command by which \<^verbatim>\<open>push_and_install_apk\<close> pushes the cached asset of a component.\<close>
  "push_command apk =
     [ADB_PATH, ''push'', path_join TEMP_DIR apk,
      path_join ''/data/local/tmp/'' (basename (path_join TEMP_DIR apk))]"

definition install_command :: "string \<Rightarrow> string list" where
  \<comment> \<open>The command by which \<^verbatim>\<open>push_and_install_apk\<close> installs the pushed asset.\<close>
  "install_command apk =
     [ADB_PATH, ''shell'', ''pm'', ''install'', ''-r'',
      path_join ''/data/local/tmp/'' (basename (path_join TEMP_DIR apk))]"

definition component_events :: "string \<Rightarrow> event set" where
  \<comment> \<open>Every external effect that installing one component can have: its download, its
      inspection by aapt, its push and its installation.\<close>
  "component_events apk =
     {Fetch (BASE_APK_RELEASE_URL @ apk),
      Exec [AAPT_PATH, ''dump'', ''badging'', path_join TEMP_DIR apk],
      Exec (push_command apk),
      Exec (install_command apk)}"

definition resolvable :: "environment \<Rightarrow> world \<Rightarrow> string \<Rightarrow> bool" where
  \<comment> \<open>The asset of a component resolves: it is in the cache, or the server delivers it
      whenever it is asked.\<close>
  "resolvable env w apk \<longleftrightarrow>
     path_exists w (path_join TEMP_DIR apk)
     \<or> (\<forall>tr. \<exists>chunks. http env tr (BASE_APK_RELEASE_URL @ apk) = Streamed chunks True)"

definition commands_succeed :: "environment \<Rightarrow> bool" where
  \<comment> \<open>Every command exits with status 0.\<close>
  "commands_succeed env = (\<forall>tr cmd. \<exists>out err. proc env tr cmd = Completed out err)"

definition wallpaper_events :: "event set" where
  \<comment> \<open>Every external effect that installing the wallpaper can have.\<close>
  "wallpaper_events =
     {Fetch (BASE_APK_RELEASE_URL @ WALLPAPER_FILENAME),
      Exec [ADB_PATH, ''push'', path_join TEMP_DIR WALLPAPER_FILENAME,
            ''/sdcard/Download/'' @ basename (path_join TEMP_DIR WALLPAPER_FILENAME)],
      Exec [ADB_PATH, ''shell'', ''cmd'', ''wallpaper'', ''set'',
            ''/sdcard/Download/'' @ basename (path_join TEMP_DIR WALLPAPER_FILENAME)]}"

definition run_events :: "string \<Rightarrow> event set" where
  \<comment> \<open>Every external effect of an installation run whose launcher part only downloads.\<close>
  "run_events chosen =
     {Fetch (BASE_APK_RELEASE_URL @ chosen)}
     \<union> (\<Union>apk \<in> set (map fst LINEAGEOS_COMPONENTS). component_events apk)
     \<union> wallpaper_events"

definition collect_events :: "event set" where
  \<comment> \<open>Every external effect of collecting the package names to uninstall.\<close>
  "collect_events =
     (\<Union>apk \<in> set (map fst LINEAGEOS_COMPONENTS).
        {Fetch (BASE_APK_RELEASE_URL @ apk),
         Exec [AAPT_PATH, ''dump'', ''badging'', path_join TEMP_DIR apk]})"

section \<open>Example environments\<close>

definition fresh_world :: world where
  \<comment> \<open>An empty cache directory, AAPT not available, nothing done and nothing typed yet.\<close>
  "fresh_world =
     \<lparr>files = Map.empty, dirs = {''apks''}, aapt_available = False, trace = [], logged = [],
      stdin = []\<rparr>"

definition env_offline :: environment where
  \<comment> \<open>Every command succeeds silently; no download connects.\<close>
  "env_offline =
     \<lparr>proc = (\<lambda>tr cmd. Completed [] []), http = (\<lambda>tr url. GetFailed), set_order = remdups\<rparr>"

definition env_broken_stream :: environment where
  \<comment> \<open>Every download delivers one chunk and then the connection breaks.\<close>
  "env_broken_stream =
     \<lparr>proc = (\<lambda>tr cmd. Completed [] []), http = (\<lambda>tr url. Streamed [''PK''] False),
      set_order = remdups\<rparr>"

definition env_served :: environment where
  \<comment> \<open>Every download delivers two chunks and ends normally.\<close>
  "env_served =
     \<lparr>proc = (\<lambda>tr cmd. Completed [] []), http = (\<lambda>tr url. Streamed [''PK'', ''data''] True),
      set_order = remdups\<rparr>"

definition env_without_aapt :: environment where
  \<comment> \<open>The aapt binary is not on the execution path; adb works.\<close>
  "env_without_aapt =
     \<lparr>proc = (\<lambda>tr cmd. if cmd = [''aapt'', ''version''] then FileNotFoundError
                         else Completed [] []),
      http = (\<lambda>tr url. GetFailed), set_order = remdups\<rparr>"

definition env_api_level :: "string \<Rightarrow> environment" where
  \<comment> \<open>A device that only answers the query for its API level.\<close>
  "env_api_level sdk =
     \<lparr>proc = (\<lambda>tr cmd. if cmd = [''adb'', ''shell'', ''getprop'', ''ro.build.version.sdk'']
                         then Completed (sdk @ [CHR 0x0A]) []
                         else CalledProcessError (Some []) (Some [])),
      http = (\<lambda>tr url. GetFailed), set_order = remdups\<rparr>"

definition env_meminfo :: "string \<Rightarrow> environment" where
  \<comment> \<open>Every command prints the given text.\<close>
  "env_meminfo blob =
     \<lparr>proc = (\<lambda>tr cmd. Completed blob []), http = (\<lambda>tr url. GetFailed), set_order = remdups\<rparr>"

definition meminfo_bad_then_good :: string where
  \<comment> \<open>A memory report whose first MemTotal line has no number; the next one has.\<close>
  "meminfo_bad_then_good =
     ''MemFree:  120000 kB'' @ [CHR 0x0A] @ ''MemTotal: n/a'' @ [CHR 0x0A]
     @ ''MemTotal:    3858000 kB'' @ [CHR 0x0A]"

definition launcher_cached_world :: world where
  \<comment> \<open>As \<open>fresh_world\<close>, with the modern launcher already in the cache.\<close>
  "launcher_cached_world =
     \<lparr>files = [''apks/Litechair.apk'' \<mapsto> ''PK''], dirs = {''apks''}, aapt_available = False,
      trace = [], logged = [], stdin = []\<rparr>"

definition env_calendar_device :: environment where
  \<comment> \<open>aapt reports the calendar package for every file; only the calendar APK can be
      downloaded; every adb command fails.\<close>
  "env_calendar_device =
     \<lparr>proc = (\<lambda>tr cmd.
          if take 1 cmd = [''aapt''] then
            Completed (''package: name='' @ [CHR 0x27] @ ''org.lineageos.etar'' @ [CHR 0x27]
                       @ '' versionCode='' @ [CHR 0x27] @ ''1'' @ [CHR 0x27] @ [CHR 0x0A]) []
          else CalledProcessError None None),
      http = (\<lambda>tr url. if url = ''https://github.com/AleXDE54/liteageOS/releases/download/APKS/Calender.apk''
                          then Streamed [''PK''] True else GetFailed),
      set_order = remdups\<rparr>"

definition confirmed_world :: world where
  \<comment> \<open>AAPT is available and the user is about to type Y.\<close>
  "confirmed_world =
     \<lparr>files = Map.empty, dirs = {''apks''}, aapt_available = True, trace = [], logged = [],
      stdin = [''Y'']\<rparr>"

section \<open>Properties\<close>

lemma str_int_23: "str_int 23 = ''23''"
  by code_simp

lemma str_int_18: "str_int 18 = ''18''"
  by code_simp

text \<open>
  Claim C1. The predicted version is a function of the OS version, the arm64 flag and the
  RAM alone: the decimal string of the OS version plus ten, or \<open>???\<close> when the OS
  version is unresolved; then \<open>+\<close> exactly when arm64 is supported; then \<open>S\<close> exactly when
  the RAM is resolved and below 100 GB. The three examples of the specification
  evaluate to \<open>23+S\<close>, \<open>???\<close> and \<open>18+\<close>.
\<close>

theorem predicted_version_shape:
  "predicted_liteage_version os arm64 ram =
     (case os of None \<Rightarrow> ''???'' | Some v \<Rightarrow> str_int (v + 10))
     @ (if arm64 then ''+'' else [])
     @ (if (\<exists>r. ram = Some r \<and> r < 100) then ''S'' else [])
   \<and> predicted_liteage_version (Some 13) True (Some 50) = ''23+S''
   \<and> predicted_liteage_version None False (Some 200) = ''???''
   \<and> predicted_liteage_version (Some 8) True None = ''18+''"
  by (simp add: predicted_liteage_version_def calculate_liteageos_version_def
      str_int_23 str_int_18 split: option.split)

subsection \<open>Worlds, logging and sequencing\<close>

lemma logging_fields [simp]:
  "files (logging lv msg w) = files w"
  "dirs (logging lv msg w) = dirs w"
  "aapt_available (logging lv msg w) = aapt_available w"
  "trace (logging lv msg w) = trace w"
  "stdin (logging lv msg w) = stdin w"
  "logged (logging lv msg w) = logged w @ [(lv, msg)]"
  by (simp_all add: logging_def)

lemma print_step_fields [simp]:
  "files (print_step m w) = files w"
  "dirs (print_step m w) = dirs w"
  "aapt_available (print_step m w) = aapt_available w"
  "trace (print_step m w) = trace w"
  "stdin (print_step m w) = stdin w"
  by (simp_all add: print_step_def)

lemma path_exists_logging [simp]: "path_exists (logging lv msg w) p = path_exists w p"
  by (simp add: path_exists_def)

lemma path_exists_print_step [simp]: "path_exists (print_step m w) p = path_exists w p"
  by (simp add: path_exists_def)

lemma andThen_Inr [simp]: "andThen (Inr a, w) f = f a w"
  by (simp add: andThen_def)

lemma andThen_Inl [simp]: "andThen (Inl e, w) f = (Inl e, w)"
  by (simp add: andThen_def)

lemma andThen_fst:
  "fst (andThen r f) = (case fst r of Inl e \<Rightarrow> Inl e | Inr a \<Rightarrow> fst (f a (snd r)))"
  by (cases r) (auto simp add: andThen_def split: sum.splits)

lemma new_events_append: "trace w' = trace w @ evs \<Longrightarrow> new_events w w' = evs"
  by (simp add: new_events_def)

lemma new_events_same: "trace w' = trace w \<Longrightarrow> new_events w w' = []"
  by (simp add: new_events_def)

lemma advances_refl [simp]: "advances w w S"
  by (simp add: advances_def)

lemma advances_trans: "advances w w1 S \<Longrightarrow> advances w1 w2 S \<Longrightarrow> advances w w2 S"
  by (auto simp add: advances_def)

lemma advances_mono: "advances w w' S \<Longrightarrow> S \<subseteq> T \<Longrightarrow> advances w w' T"
  by (auto simp add: advances_def)

lemma advances_logging: "advances w0 w S \<Longrightarrow> advances w0 (logging lv msg w) S"
  by (auto simp add: advances_def)

lemma advances_print_step: "advances w0 w S \<Longrightarrow> advances w0 (print_step m w) S"
  by (simp add: print_step_def advances_logging)

lemma advances_events: "advances w w' S \<Longrightarrow> set (new_events w w') \<subseteq> S"
  by (auto simp add: advances_def new_events_def)

lemma advances_trace: "advances w w' S \<Longrightarrow> trace w' = trace w @ new_events w w'"
  by (auto simp add: advances_def new_events_def)

lemma advances_andThen:
  assumes "advances w0 (snd r) S"
    and "\<And>a w1. r = (Inr a, w1) \<Longrightarrow> advances w0 w1 S \<Longrightarrow> advances w0 (snd (f a w1)) S"
  shows "advances w0 (snd (andThen r f)) S"
proof (cases r)
  case (Pair x w1)
  show ?thesis
  proof (cases x)
    case (Inl e)
    then show ?thesis using Pair assms(1) by simp
  next
    case (Inr a)
    then show ?thesis using Pair assms by simp
  qed
qed

subsection \<open>Strings and numbers\<close>

lemma dropWhile_idem: "dropWhile P (dropWhile P xs) = dropWhile P xs"
  by (induction xs) auto

lemma strip_Nil [simp]: "strip [] = []"
  by (simp add: strip_def)

lemma dropWhile_rev_dropWhile:
  "dropWhile P (rev (dropWhile P (rev (dropWhile P xs)))) = rev (dropWhile P (rev (dropWhile P xs)))"
proof (cases "dropWhile P xs")
  case Nil
  show ?thesis unfolding Nil by simp
next
  case (Cons y ys)
  then have ny: "\<not> P y" by (metis hd_dropWhile list.discI list.sel(1))
  show ?thesis unfolding Cons using ny by (simp add: dropWhile_append)
qed

lemma strip_idem [simp]: "strip (strip s) = strip s"
  unfolding strip_def
  by (simp add: dropWhile_rev_dropWhile dropWhile_idem)

lemma py_int_strip [simp]: "py_int (strip s) = py_int s"
  by (simp add: py_int_def)

lemma py_int_Some_nonempty: "py_int s = Some v \<Longrightarrow> strip s \<noteq> []"
  by (auto simp add: py_int_def)

lemma digits_value_digits:
  "list_all is_decimal cs \<Longrightarrow> \<exists>n. digits_value acc cs = Some n"
  by (induction acc cs rule: digits_value.induct) auto

lemma digit_not_space: "is_decimal c \<Longrightarrow> \<not> is_space c"
  by (auto simp add: is_decimal_def is_space_def)

lemma isdecimal_isdigit: "isdecimal s \<Longrightarrow> isdigit s"
  by (auto simp add: isdecimal_def isdigit_def is_digit_def list_all_iff)

lemma strip_digits: "isdecimal s \<Longrightarrow> strip s = s"
proof -
  assume a: "isdecimal s"
  then obtain c cs where s: "s = c # cs" by (cases s) (auto simp: isdecimal_def)
  have all: "\<forall>x \<in> set s. \<not> is_space x" using a
    by (auto simp add: isdecimal_def list_all_iff digit_not_space)
  have 1: "dropWhile is_space s = s" using all s by simp
  have "rev s \<noteq> []" using s by simp
  then obtain d ds where r: "rev s = d # ds" by (cases "rev s") auto
  then have "d \<in> set s" by (metis list.set_intros(1) set_rev)
  then have "\<not> is_space d" using all by blast
  then have 2: "dropWhile is_space (rev s) = rev s" using r by simp
  show ?thesis by (simp add: strip_def 1 2)
qed

lemma isdecimal_py_int: "isdecimal s \<Longrightarrow> \<exists>n. py_int s = Some n"
proof -
  assume a: "isdecimal s"
  then obtain c cs where s: "s = c # cs" by (cases s) (auto simp: isdecimal_def)
  have d: "is_decimal c" "list_all is_decimal cs" using a s by (auto simp: isdecimal_def)
  have nm: "c \<noteq> CHR ''-''" "c \<noteq> CHR ''+''" using d(1) by (auto simp: is_decimal_def)
  from digits_value_digits [OF d(2)] obtain n where "digits_value (digit_val c) cs = Some n" by blast
  then show ?thesis using s d nm by (simp add: py_int_def strip_digits [OF a, unfolded s] unsigned_value_def)
qed

lemma bit_length_bound: "n < 2 ^ m \<Longrightarrow> bit_length n \<le> m"
proof (induction m arbitrary: n)
  case 0
  then show ?case by (simp add: bit_length.simps)
next
  case (Suc m)
  show ?case
  proof (cases "n \<le> 0")
    case True
    then show ?thesis by (simp add: bit_length.simps)
  next
    case False
    have "n div 2 < 2 ^ m" using Suc.prems by auto
    from Suc.IH [OF this] show ?thesis using False
      by (subst bit_length.simps) simp
  qed
qed

lemma div_mebi_exact:
  "\<bar>k\<bar> < 2 ^ 53 \<Longrightarrow> div_mebi k = Some (of_int k / (1024 * 1024))"
proof -
  assume a: "\<bar>k\<bar> < 2 ^ 53"
  have b: "bit_length \<bar>k\<bar> \<le> 53" using a by (rule bit_length_bound)
  have c: "\<not> (2 :: int) ^ 1044 \<le> \<bar>k\<bar>"
  proof -
    have "(2 :: int) ^ 53 \<le> 2 ^ 1044" by (rule power_increasing) auto
    then show ?thesis using a by linarith
  qed
  show ?thesis using b c by (auto simp add: div_mebi_def round_to_53_bits_def Let_def)
qed

subsection \<open>Command Runner\<close>

lemma run_command_trace [simp]:
  "trace (snd (run_command env command co se tool w)) = trace w @ [Exec command]"
  by (simp add: run_command_def Let_def log_completed_def log_called_process_error_def
      log_file_not_found_def split: proc_result.splits)

lemma run_command_result:
  "fst (run_command env command co se tool w) =
     (case proc env (trace w) command of
        Completed out err \<Rightarrow> Inr (if co then PStr (strip out) else PBool True)
      | CalledProcessError out err \<Rightarrow> Inr (PBool False)
      | FileNotFoundError \<Rightarrow> Inl (SystemExit 1))"
  by (simp add: run_command_def Let_def split: proc_result.splits)

lemma run_command_frame [simp]:
  "files (snd (run_command env command co se tool w)) = files w"
  "dirs (snd (run_command env command co se tool w)) = dirs w"
  "aapt_available (snd (run_command env command co se tool w)) = aapt_available w"
  "stdin (snd (run_command env command co se tool w)) = stdin w"
  by (simp_all add: run_command_def Let_def log_completed_def log_called_process_error_def
      log_file_not_found_def split: proc_result.splits)

lemma run_command_logged:
  "set (logged w) \<subseteq> set (logged (snd (run_command env command co se tool w)))"
  by (auto simp add: run_command_def Let_def log_completed_def log_called_process_error_def
      log_file_not_found_def split: proc_result.splits)

lemma run_command_advances:
  "advances w0 w S \<Longrightarrow> Exec command \<in> S \<Longrightarrow>
     advances w0 (snd (run_command env command co se tool w)) S"
  using run_command_logged [of w env command co se tool]
  by (auto simp add: advances_def path_exists_def)

lemma run_command_present:
  "binaries_present env \<Longrightarrow> \<exists>v. fst (run_command env command co se tool w) = Inr v"
  by (cases "proc env (trace w) command")
     (auto simp add: run_command_result binaries_present_def)

subsection \<open>Asset Resolver\<close>

lemma write_chunks_concat: "write_chunks chunks content = content @ concat chunks"
  by (induction chunks arbitrary: content) auto

lemma download_cached:
  assumes "path_exists w (path_join target_dir filename)"
  shows "\<exists>w'. download_file env url filename target_dir w = (Inr (Some (path_join target_dir filename)), w')
        \<and> trace w' = trace w \<and> files w' = files w"
  using assms by (auto simp add: download_file_def Let_def path_exists_def makedirs_def)

lemma download_file_advances:
  "advances w0 w S \<Longrightarrow> Fetch url \<in> S \<Longrightarrow>
     advances w0 (snd (download_file env url filename target_dir w)) S"
  by (auto simp add: download_file_def Let_def advances_def path_exists_def makedirs_def
      split: fetch_result.splits)

lemma download_file_returns:
  "\<exists>p. fst (download_file env url filename target_dir w) = Inr p
       \<and> (p = None \<or> p = Some (path_join target_dir filename))"
  by (auto simp add: download_file_def Let_def split: fetch_result.splits)

text \<open>
  Claim C7. When the asset's file already exists in the cache, \<^verbatim>\<open>download_file\<close> returns
  its path and performs no transfer. Hence, when the asset is present after a first
  call, a second call for the same asset returns the path without a transfer, and the
  two calls together have performed exactly one transfer if the asset was absent at
  the start (none if it was there already).
\<close>

theorem download_file_idempotent:
  "(path_exists w (path_join target_dir filename) \<longrightarrow>
      (\<exists>w'. download_file env url filename target_dir w
               = (Inr (Some (path_join target_dir filename)), w')
            \<and> new_events w w' = []))
   \<and> (path_exists (snd (download_file env url filename target_dir w))
         (path_join target_dir filename)
        \<and> path_join target_dir filename \<noteq> target_dir \<longrightarrow>
      (\<exists>w2. download_file env url filename target_dir
               (snd (download_file env url filename target_dir w))
               = (Inr (Some (path_join target_dir filename)), w2)
            \<and> new_events w w2
                = (if path_exists w (path_join target_dir filename) then [] else [Fetch url])))"
proof (intro conjI impI)
  assume "path_exists w (path_join target_dir filename)"
  from download_cached [OF this, of env url]
  show "\<exists>w'. download_file env url filename target_dir w
               = (Inr (Some (path_join target_dir filename)), w') \<and> new_events w w' = []"
    by (auto simp add: new_events_def)
next
  let ?p = "path_join target_dir filename"
  let ?w1 = "snd (download_file env url filename target_dir w)"
  assume a: "path_exists ?w1 ?p \<and> ?p \<noteq> target_dir"
  from download_cached [of ?w1 target_dir filename env url] a
  obtain w2 where w2: "download_file env url filename target_dir ?w1 = (Inr (Some ?p), w2)"
    "trace w2 = trace ?w1" by auto
  have t1: "trace ?w1 = trace w @ (if path_exists w ?p then [] else [Fetch url])"
    using a by (auto simp add: download_file_def Let_def path_exists_def makedirs_def
        split: fetch_result.splits)
  show "\<exists>w2. download_file env url filename target_dir ?w1 = (Inr (Some ?p), w2)
            \<and> new_events w w2 = (if path_exists w ?p then [] else [Fetch url])"
    using w2 t1 by (auto simp add: new_events_def)
qed

theorem download_file_idempotent_witness:
  "\<exists>w2. download_file env_served ''https://host/Music.apk'' ''Music.apk'' ''apks''
            (snd (download_file env_served ''https://host/Music.apk'' ''Music.apk'' ''apks''
                    fresh_world))
          = (Inr (Some (path_join ''apks'' ''Music.apk'')), w2)
        \<and> new_events fresh_world w2 = [Fetch ''https://host/Music.apk'']"
proof -
  have h1: "path_exists (snd (download_file env_served ''https://host/Music.apk'' ''Music.apk''
                    ''apks'' fresh_world)) (path_join ''apks'' ''Music.apk'')
            \<and> path_join ''apks'' ''Music.apk'' \<noteq> ''apks''"
    by code_simp
  have h2: "\<not> path_exists fresh_world (path_join ''apks'' ''Music.apk'')" by code_simp
  from download_file_idempotent [of fresh_world "''apks''" "''Music.apk''" env_served
      "''https://host/Music.apk''"] h1 h2
  show ?thesis by simp
qed

text \<open>
  Claim C8, as stated in the specification, fails: when the connection breaks while the
  body is streamed, \<^verbatim>\<open>download_file\<close> returns None but the bytes written so far stay in
  the cache under the asset's name, and the next call returns that file as cached.
\<close>

theorem partial_file_counterexample:
  "fst (download_file env_broken_stream ''https://host/Music.apk'' ''Music.apk'' ''apks'' fresh_world)
     = Inr None
   \<and> \<not> path_exists fresh_world ''apks/Music.apk''
   \<and> path_exists
        (snd (download_file env_broken_stream ''https://host/Music.apk'' ''Music.apk'' ''apks''
                fresh_world))
        ''apks/Music.apk''
   \<and> fst (download_file env_broken_stream ''https://host/Music.apk'' ''Music.apk'' ''apks''
            (snd (download_file env_broken_stream ''https://host/Music.apk'' ''Music.apk''
                    ''apks'' fresh_world)))
     = Inr (Some ''apks/Music.apk'')"
  by code_simp

text \<open>
  Claim C8, amended. On every transport error \<^verbatim>\<open>download_file\<close> returns None. When the
  error comes before the body is streamed (no connection, bad HTTP status) no file is
  created or changed and every asset path exists afterwards exactly if it existed
  before. When the error comes while the body is streamed, the chunks received so far
  are left in the cache under the asset's name, and a later call returns that file
  without a transfer.
\<close>

theorem download_failure_effects:
  assumes "\<not> path_exists w (path_join target_dir filename)"
    and "path_join target_dir filename \<noteq> target_dir"
  shows "(http env (trace w) url = GetFailed \<or> http env (trace w) url = BadStatus \<longrightarrow>
           (\<exists>w'. download_file env url filename target_dir w = (Inr None, w')
              \<and> files w' = files w
              \<and> (\<forall>p. p \<noteq> target_dir \<longrightarrow> path_exists w' p = path_exists w p)))
       \<and> (\<forall>chunks. http env (trace w) url = Streamed chunks False \<longrightarrow>
           (\<exists>w'. download_file env url filename target_dir w = (Inr None, w')
              \<and> files w' = (files w)(path_join target_dir filename \<mapsto> concat chunks)
              \<and> (\<exists>w2. download_file env url filename target_dir w'
                         = (Inr (Some (path_join target_dir filename)), w2)
                       \<and> trace w2 = trace w')))"
  using assms
  by (auto simp add: download_file_def Let_def path_exists_def makedirs_def write_chunks_concat
      split: fetch_result.splits)

theorem download_failure_effects_witness:
  "\<exists>w'. download_file env_offline ''https://host/Music.apk'' ''Music.apk'' ''apks'' fresh_world
          = (Inr None, w')
        \<and> files w' = files fresh_world
        \<and> (\<forall>p. p \<noteq> ''apks'' \<longrightarrow> path_exists w' p = path_exists fresh_world p)"
proof -
  have h1: "\<not> path_exists fresh_world (path_join ''apks'' ''Music.apk'')" by code_simp
  have h2: "path_join ''apks'' ''Music.apk'' \<noteq> ''apks''" by code_simp
  have h3: "http env_offline (trace fresh_world) ''https://host/Music.apk'' = GetFailed"
    by (simp add: env_offline_def)
  from download_failure_effects [OF h1 h2, of env_offline "''https://host/Music.apk''"] h3
  show ?thesis by blast
qed

subsection \<open>Capability Prober\<close>

lemma check_aapt_missing:
  "proc env (trace w) [AAPT_PATH, ''version''] = FileNotFoundError \<Longrightarrow>
     fst (check_aapt_availability env w) = Inl (SystemExit 1)"
  by (simp add: check_aapt_availability_def Let_def andThen_fst run_command_result)

text \<open>
  Claim C3 does not hold of the code. When the aapt binary is not on the execution
  path, \<^verbatim>\<open>run_command\<close> reaches \<^verbatim>\<open>sys.exit(1)\<close>, so the capability probe never sets the
  flag to false: the process ends with exit status 1.
\<close>

theorem aapt_missing_exits:
  "fst (check_aapt_availability env_without_aapt fresh_world) = Inl (SystemExit 1)"
  by code_simp

subsection \<open>Device Profiler\<close>

lemma version_from_sdk_result:
  "fst (version_from_sdk v w) =
     (case v of
        PBool b \<Rightarrow> if b then Inl AttributeError else Inr None
      | PStr s \<Rightarrow>
          if s \<noteq> [] \<and> isdigit (strip s) then
            (case py_int s of
               None \<Rightarrow> Inl ValueError
             | Some n \<Rightarrow>
                 Inr (Some (if 34 \<le> n then 14
                            else case map_of [(33, 13), (32, 12), (31, 12), (30, 11), (29, 10),
                                              (28, 9), (27, 8), (26, 8)] n of
                                   Some v \<Rightarrow> v | None \<Rightarrow> n)))
          else Inr None)"
  by (simp add: version_from_sdk_def Let_def split: pyval.splits option.splits)

text \<open>
  Claim C4, as stated in the specification, fails: an API level above the table is not
  returned as it is. For API level 35 the result is 14.
\<close>

theorem api_35_counterexample:
  "fst (get_android_os_version (env_api_level ''35'') fresh_world) = Inr (Some 14)
   \<and> fst (get_android_os_version (env_api_level ''35'') fresh_world) \<noteq> Inr (Some 35)"
  by code_simp

text \<open>
  The API-level string is tested with \<^verbatim>\<open>isdigit\<close> and then read with \<^verbatim>\<open>int\<close>. The two
  disagree on the superscript digits: such a string passes the test, and the
  ValueError of \<^verbatim>\<open>int\<close> leaves the function uncaught.
\<close>

lemma sdk_superscript_raises:
  "isdigit [CHR 0xB2]
   \<and> fst (get_android_os_version (env_api_level [CHR 0xB2]) fresh_world) = Inl ValueError"
  by code_simp

text \<open>
  Claim C4, amended. \<^verbatim>\<open>get_android_os_version\<close> first reads the release-version property
  as an integer and returns it. When that property is absent or not an integer, it
  reads the API-level property: a string of the decimal digits 0 to 9 is an API level,
  of which 34 or more gives 14, the levels 26 to 33 give the version of the fixed
  table, and only a level below 26 is returned as it is. When the API-level property is
  absent or does not pass \<^verbatim>\<open>isdigit\<close>, the result is None, not an error.
\<close>

theorem os_version_resolution:
  fixes env w
  defines "release \<equiv> proc env (trace w) [ADB_PATH, ''shell'', ''getprop'', ''ro.build.version.release'']"
    and "sdk \<equiv> proc env (trace w @ [Exec [ADB_PATH, ''shell'', ''getprop'', ''ro.build.version.release'']])
                  [ADB_PATH, ''shell'', ''getprop'', ''ro.build.version.sdk'']"
  shows
    "(\<forall>out err v. release = Completed out err \<and> py_int out = Some v \<longrightarrow>
        fst (get_android_os_version env w) = Inr (Some v))
   \<and> (\<forall>out err. release_unreadable release \<and> sdk = Completed out err \<and> isdecimal (strip out) \<longrightarrow>
        (\<exists>n. py_int out = Some n \<and>
           fst (get_android_os_version env w) =
             Inr (Some (if 34 \<le> n then 14
                        else case map_of [(33, 13), (32, 12), (31, 12), (30, 11), (29, 10),
                                          (28, 9), (27, 8), (26, 8)] n of
                               Some v \<Rightarrow> v | None \<Rightarrow> n))))
   \<and> (release_unreadable release \<and> ((\<exists>out err. sdk = CalledProcessError out err)
                     \<or> (\<exists>out err. sdk = Completed out err \<and> \<not> isdigit (strip out))) \<longrightarrow>
        fst (get_android_os_version env w) = Inr None)"
proof (intro conjI allI impI)
  fix out err v
  assume "release = Completed out err \<and> py_int out = Some v"
  then show "fst (get_android_os_version env w) = Inr (Some v)"
    using py_int_Some_nonempty [of out v]
    by (simp add: get_android_os_version_def Let_def andThen_fst run_command_result release_def)
next
  fix out err
  assume a: "release_unreadable release \<and> sdk = Completed out err \<and> isdecimal (strip out)"
  from a isdecimal_py_int [of "strip out"] obtain n where n: "py_int out = Some n" by auto
  have ne: "strip out \<noteq> []" using n py_int_Some_nonempty by blast
  have dg: "isdigit (strip out)" using a isdecimal_isdigit by blast
  have "fst (get_android_os_version env w) =
          Inr (Some (if 34 \<le> n then 14
                        else case map_of [(33, 13), (32, 12), (31, 12), (30, 11), (29, 10),
                                          (28, 9), (27, 8), (26, 8)] n of
                               Some v \<Rightarrow> v | None \<Rightarrow> n))"
    using a n ne dg unfolding release_unreadable_def release_def sdk_def
    by (auto simp add: get_android_os_version_def Let_def andThen_fst run_command_result
        version_from_sdk_result split: option.splits proc_result.splits)
  then show "\<exists>n. py_int out = Some n \<and>
           fst (get_android_os_version env w) =
             Inr (Some (if 34 \<le> n then 14
                        else case map_of [(33, 13), (32, 12), (31, 12), (30, 11), (29, 10),
                                          (28, 9), (27, 8), (26, 8)] n of
                               Some v \<Rightarrow> v | None \<Rightarrow> n))"
    using n by blast
next
  assume "release_unreadable release \<and> ((\<exists>out err. sdk = CalledProcessError out err)
                     \<or> (\<exists>out err. sdk = Completed out err \<and> \<not> isdigit (strip out)))"
  then show "fst (get_android_os_version env w) = Inr None"
    unfolding release_unreadable_def release_def sdk_def
    by (auto simp add: get_android_os_version_def Let_def andThen_fst run_command_result
        version_from_sdk_result split: option.splits proc_result.splits)
qed

theorem os_version_resolution_witness:
  "fst (get_android_os_version (env_api_level ''25'') fresh_world) = Inr (Some 25)"
proof -
  let ?out = "''25'' @ [CHR 0x0A]"
  have h: "release_unreadable
             (proc (env_api_level ''25'') (trace fresh_world)
                [ADB_PATH, ''shell'', ''getprop'', ''ro.build.version.release''])
           \<and> proc (env_api_level ''25'')
               (trace fresh_world @
                [Exec [ADB_PATH, ''shell'', ''getprop'', ''ro.build.version.release'']])
               [ADB_PATH, ''shell'', ''getprop'', ''ro.build.version.sdk''] = Completed ?out []
           \<and> isdecimal (strip ?out)"
    by code_simp
  have p: "py_int ?out = Some 25" by code_simp
  from os_version_resolution [of "env_api_level ''25''" fresh_world] h
  have "\<exists>n. py_int ?out = Some n \<and>
           fst (get_android_os_version (env_api_level ''25'') fresh_world) =
             Inr (Some (if 34 \<le> n then 14
                        else case map_of [(33, 13), (32, 12), (31, 12), (30, 11), (29, 10),
                                          (28, 9), (27, 8), (26, 8)] n of
                               Some v \<Rightarrow> v | None \<Rightarrow> n))"
    by blast
  then show ?thesis using p by auto
qed

subsection \<open>Uninstall Orchestrator\<close>

text \<open>
  Claim C9. \<^verbatim>\<open>wipe_liteageos_components\<close> asks for a confirmation first. For every answer
  whose lower-case form is not \<open>y\<close> it returns at once: no command is run and no
  download is attempted (the trace is unchanged), and the files, the directories and
  the AAPT flag are unchanged; only the answer has been read.
\<close>

theorem wipe_cancel:
  assumes "stdin w = answer # rest" and "lower answer \<noteq> ''y''"
  shows "\<exists>w'. wipe_liteageos_components env w = (Inr (), w')
           \<and> trace w' = trace w \<and> files w' = files w \<and> dirs w' = dirs w
           \<and> aapt_available w' = aapt_available w \<and> stdin w' = rest"
  using assms by (simp add: wipe_liteageos_components_def input_def)

theorem wipe_cancel_witness:
  "\<exists>w'. wipe_liteageos_components env_offline (fresh_world\<lparr>stdin := [''no'']\<rparr>) = (Inr (), w')
        \<and> trace w' = [] \<and> stdin w' = []"
proof -
  have h1: "stdin (fresh_world\<lparr>stdin := [''no'']\<rparr>) = ''no'' # []" by simp
  have h2: "lower ''no'' \<noteq> ''y''" by code_simp
  from wipe_cancel [OF h1 h2, of env_offline]
  show ?thesis by (auto simp add: fresh_world_def)
qed

subsection \<open>RAM resolution\<close>

lemma scan_meminfo_first:
  "fst (scan_meminfo ls w) =
     (case find (\<lambda>l. contains l ''MemTotal:'') ls of
        None \<Rightarrow> Fallthrough
      | Some line \<Rightarrow>
          (case split_ws line of
             _ # token # _ \<Rightarrow>
               (case py_int token of
                  Some mem_kb \<Rightarrow>
                    (case div_mebi mem_kb of
                       Some ratio \<Rightarrow> Return (Some (py_round2 ratio))
                     | None \<Rightarrow> Raised)
                | None \<Rightarrow> Return None)
           | _ \<Rightarrow> Return None))"
  by (induction ls) (auto simp add: Let_def split: list.splits option.splits)

lemma run_command_completed:
  "proc env (trace w) command = Completed out err \<Longrightarrow>
     \<exists>w'. run_command env command True se tool w = (Inr (PStr (strip out)), w')"
  by (simp add: run_command_def Let_def)

lemma get_device_ram_gb_result:
  assumes "proc env (trace w) [ADB_PATH, ''shell'', ''cat'', ''/proc/meminfo''] = Completed out err"
  shows "fst (get_device_ram_gb env w) =
     (case fst (scan_meminfo (splitlines (strip out)) w) of
        Return mem_gb \<Rightarrow> Inr mem_gb
      | Raised \<Rightarrow> Inl OverflowError
      | Fallthrough \<Rightarrow> Inr None)"
proof -
  from run_command_completed [of env "logging INFO ''Getting total device RAM...'' w", simplified, OF assms]
  obtain w1 where r: "run_command env [ADB_PATH, ''shell'', ''cat'', ''/proc/meminfo''] True True ''ADB''
             (logging INFO ''Getting total device RAM...'' w) = (Inr (PStr (strip out)), w1)"
    by blast
  obtain l w2 where sc: "scan_meminfo (splitlines (strip out)) w1 = (l, w2)"
    by (cases "scan_meminfo (splitlines (strip out)) w1") blast
  have "fst (scan_meminfo (splitlines (strip out)) w1) = fst (scan_meminfo (splitlines (strip out)) w)"
    by (simp only: scan_meminfo_first)
  then have l: "fst (scan_meminfo (splitlines (strip out)) w) = l"
    using sc by simp
  have e: "strip out = [] \<Longrightarrow> l = Fallthrough"
    using l by (simp add: scan_meminfo_first splitlines_def)
  have "fst (get_device_ram_gb env w) =
          (case l of Return mem_gb \<Rightarrow> Inr mem_gb | Raised \<Rightarrow> Inl OverflowError
           | Fallthrough \<Rightarrow> Inr None)"
  proof (cases "strip out = []")
    case True
    then have "l = Fallthrough" by (rule e)
    then show ?thesis
      unfolding get_device_ram_gb_def Let_def r andThen_Inr using True by simp
  next
    case False
    then show ?thesis
      unfolding get_device_ram_gb_def Let_def r andThen_Inr
      by (cases l) (simp_all add: sc)
  qed
  then show ?thesis by (simp only: l)
qed

lemma ram_3858000: "map_option py_round2 (div_mebi 3858000) = Some (368 / 100)"
  by code_simp

lemma py_int_3858000: "py_int ''3858000'' = Some 3858000"
  by code_simp

text \<open>
  Claim C10. \<^verbatim>\<open>get_device_ram_gb\<close> decides on the first line of the memory report that
  contains \<open>MemTotal:\<close>. Without such a line the result is None, not an exception. When
  the second whitespace-separated token of that line is \<open>3858000\<close> the result is 3.68;
  in general a numeric token \<open>k\<close> gives \<open>k / 1024\<^sup>2\<close> rounded to two decimals. When the
  token is missing or not a number the result is None at once, whatever the later lines
  hold.
\<close>

theorem ram_from_first_memtotal_line:
  assumes "proc env (trace w) [ADB_PATH, ''shell'', ''cat'', ''/proc/meminfo''] = Completed out err"
  shows
    "(find (\<lambda>l. contains l ''MemTotal:'') (splitlines (strip out)) = None \<longrightarrow>
        fst (get_device_ram_gb env w) = Inr None)
   \<and> (\<forall>line. find (\<lambda>l. contains l ''MemTotal:'') (splitlines (strip out)) = Some line \<longrightarrow>
        (\<forall>t0 rest. split_ws line = t0 # ''3858000'' # rest \<longrightarrow>
            fst (get_device_ram_gb env w) = Inr (Some (368 / 100)))
      \<and> (\<forall>t0 token rest k.
            split_ws line = t0 # token # rest \<and> py_int token = Some k \<and> \<bar>k\<bar> < 2 ^ 53 \<longrightarrow>
            fst (get_device_ram_gb env w) = Inr (Some (py_round2 (of_int k / (1024 * 1024)))))
      \<and> (length (split_ws line) < 2
          \<or> (\<exists>t0 token rest. split_ws line = t0 # token # rest \<and> py_int token = None) \<longrightarrow>
            fst (get_device_ram_gb env w) = Inr None))"
proof -
  note r = get_device_ram_gb_result [OF assms] scan_meminfo_first
  show ?thesis
  proof (intro conjI allI impI)
    assume "find (\<lambda>l. contains l ''MemTotal:'') (splitlines (strip out)) = None"
    then show "fst (get_device_ram_gb env w) = Inr None" by (simp add: r)
  next
    fix line t0 rest
    assume "find (\<lambda>l. contains l ''MemTotal:'') (splitlines (strip out)) = Some line"
      and "split_ws line = t0 # ''3858000'' # rest"
    then show "fst (get_device_ram_gb env w) = Inr (Some (368 / 100))"
      using ram_3858000 by (auto simp add: r py_int_3858000 split: option.splits)
  next
    fix line t0 token rest k
    assume "find (\<lambda>l. contains l ''MemTotal:'') (splitlines (strip out)) = Some line"
      and "split_ws line = t0 # token # rest \<and> py_int token = Some k \<and> \<bar>k\<bar> < 2 ^ 53"
    then show "fst (get_device_ram_gb env w) = Inr (Some (py_round2 (of_int k / (1024 * 1024))))"
      by (simp add: r div_mebi_exact)
  next
    fix line
    assume "find (\<lambda>l. contains l ''MemTotal:'') (splitlines (strip out)) = Some line"
      and "length (split_ws line) < 2
          \<or> (\<exists>t0 token rest. split_ws line = t0 # token # rest \<and> py_int token = None)"
    then show "fst (get_device_ram_gb env w) = Inr None"
      by (auto simp add: r split: list.splits)
  qed
qed

theorem ram_from_first_memtotal_line_witness:
  "fst (get_device_ram_gb (env_meminfo meminfo_bad_then_good) fresh_world) = Inr None"
proof -
  have h: "proc (env_meminfo meminfo_bad_then_good) (trace fresh_world)
             [ADB_PATH, ''shell'', ''cat'', ''/proc/meminfo''] = Completed meminfo_bad_then_good []"
    by (simp add: env_meminfo_def)
  have f: "find (\<lambda>l. contains l ''MemTotal:'') (splitlines (strip meminfo_bad_then_good))
             = Some ''MemTotal: n/a''"
    by code_simp
  have t: "split_ws ''MemTotal: n/a'' = ''MemTotal:'' # ''n/a'' # [] \<and> py_int ''n/a'' = None"
    by code_simp
  from ram_from_first_memtotal_line [OF h] f t show ?thesis by blast
qed

subsection \<open>Effects of the package identifier and the device actions\<close>

lemma download_file_path:
  "download_file env url filename target_dir w = (Inr (Some p), w1) \<Longrightarrow>
     p = path_join target_dir filename"
  using download_file_returns [of env url filename target_dir w] by auto

lemma get_package_name_advances:
  "advances w0 w S \<Longrightarrow> Exec [AAPT_PATH, ''dump'', ''badging'', apk_path] \<in> S \<Longrightarrow>
     advances w0 (snd (get_package_name_from_apk env apk_path w)) S"
  unfolding get_package_name_from_apk_def Let_def
  by (auto intro!: advances_andThen run_command_advances advances_logging
      split: pyval.splits loop.splits)

lemma push_and_install_advances:
  "advances w0 w S \<Longrightarrow>
   Exec [ADB_PATH, ''push'', local_path, path_join remote_path (basename local_path)] \<in> S \<Longrightarrow>
   Exec [ADB_PATH, ''shell'', ''pm'', ''install'', ''-r'',
         path_join remote_path (basename local_path)] \<in> S \<Longrightarrow>
     advances w0 (snd (push_and_install_apk env local_path remote_path w)) S"
  unfolding push_and_install_apk_def Let_def
  by (auto intro!: advances_andThen run_command_advances advances_logging)

lemma new_events_trans:
  "advances w w1 S \<Longrightarrow> advances w1 w2 T \<Longrightarrow>
     new_events w w2 = new_events w w1 @ new_events w1 w2"
proof -
  assume a: "advances w w1 S" and b: "advances w1 w2 T"
  from a obtain e1 where e1: "trace w1 = trace w @ e1" unfolding advances_def by blast
  from b obtain e2 where e2: "trace w2 = trace w1 @ e2" unfolding advances_def by blast
  show ?thesis unfolding new_events_def e2 e1 by simp
qed

lemma get_package_name_present:
  "binaries_present env \<Longrightarrow> \<exists>v. fst (get_package_name_from_apk env apk_path w) = Inr v"
  unfolding get_package_name_from_apk_def Let_def
  using run_command_present [of env "[AAPT_PATH, ''dump'', ''badging'', apk_path]" True True "''AAPT''"
      "logging INFO ''Determining package name for {os.path.basename(apk_path)} using aapt...'' w"]
  by (auto simp add: andThen_fst split: pyval.splits loop.splits sum.splits)

lemma download_file_resolves:
  assumes "path_exists w (path_join target_dir filename)
           \<or> (\<forall>tr. \<exists>chunks. http env tr url = Streamed chunks True)"
  shows "fst (download_file env url filename target_dir w) = Inr (Some (path_join target_dir filename))"
proof (cases "path_exists w (path_join target_dir filename)")
  case True
  from download_cached [OF this] show ?thesis by (metis fst_conv)
next
  case False
  then have "\<exists>chunks. http env (trace w) url = Streamed chunks True" using assms by blast
  then show ?thesis 
    by (auto simp add: download_file_def Let_def makedirs_def split: fetch_result.splits)
qed

lemma run_command_event:
  "Exec command \<in> set (new_events w (snd (run_command env command co se tool w)))"
  by (simp add: new_events_def)

lemma new_events_later:
  "advances w w1 S \<Longrightarrow> advances w1 w2 T \<Longrightarrow> e \<in> set (new_events w1 w2) \<Longrightarrow>
     e \<in> set (new_events w w2)"
  using new_events_trans [of w w1 S w2 T] by simp

lemma new_events_earlier:
  "advances w w1 S \<Longrightarrow> advances w1 w2 T \<Longrightarrow> e \<in> set (new_events w w1) \<Longrightarrow>
     e \<in> set (new_events w w2)"
  using new_events_trans [of w w1 S w2 T] by simp

lemma push_and_install_pushes:
  assumes "binaries_present env"
  shows "(\<exists>ok. fst (push_and_install_apk env local_path remote_path w) = Inr ok)
       \<and> Exec [ADB_PATH, ''push'', local_path, path_join remote_path (basename local_path)]
           \<in> set (new_events w (snd (push_and_install_apk env local_path remote_path w)))
       \<and> (commands_succeed env \<longrightarrow>
           Exec [ADB_PATH, ''shell'', ''pm'', ''install'', ''-r'',
                 path_join remote_path (basename local_path)]
           \<in> set (new_events w (snd (push_and_install_apk env local_path remote_path w))))"
proof -
  let ?push = "[ADB_PATH, ''push'', local_path, path_join remote_path (basename local_path)]"
  let ?inst = "[ADB_PATH, ''shell'', ''pm'', ''install'', ''-r'',
                 path_join remote_path (basename local_path)]"
  let ?w0 = "logging INFO ''Pushing {filename} to device...'' w"
  obtain r1 w1 where r1: "run_command env ?push False False ''ADB'' ?w0 = (r1, w1)"
    by (cases "run_command env ?push False False ''ADB'' ?w0") blast
  have t1: "trace w1 = trace w @ [Exec ?push]"
    using run_command_trace [of env ?push False False "''ADB''" ?w0] r1 by simp
  from run_command_present [OF assms, of ?push False False "''ADB''" ?w0] r1
  obtain v1 where v1: "r1 = Inr v1" by auto
  let ?w1' = "logging INFO ''Installing {filename}...'' w1"
  obtain r2 w2 where r2: "run_command env ?inst False False ''ADB'' ?w1' = (r2, w2)"
    by (cases "run_command env ?inst False False ''ADB'' ?w1'") blast
  have t2: "trace w2 = trace w @ [Exec ?push, Exec ?inst]"
    using run_command_trace [of env ?inst False False "''ADB''" ?w1'] r2 t1 by simp
  from run_command_present [OF assms, of ?inst False False "''ADB''" ?w1'] r2
  obtain v2 where v2: "r2 = Inr v2" by auto
  have s: "truthy v1" if "commands_succeed env"
  proof -
    from that obtain out err where "proc env (trace ?w0) ?push = Completed out err"
      unfolding commands_succeed_def by blast
    then have "fst (run_command env ?push False False ''ADB'' ?w0) = Inr (PBool True)"
      by (simp add: run_command_result)
    then show ?thesis using r1 v1 by simp
  qed
  show ?thesis
  proof (cases "truthy v1")
    case False
    then have "push_and_install_apk env local_path remote_path w
                 = (Inr False, logging ERROR ''Failed to push {filename} to device.'' w1)"
      unfolding push_and_install_apk_def Let_def r1 v1 andThen_Inr by simp
    then show ?thesis using t1 s False by (auto simp add: new_events_def)
  next
    case True
    then have "\<exists>ok w3. push_and_install_apk env local_path remote_path w = (Inr ok, w3)
                 \<and> trace w3 = trace w2"
      unfolding push_and_install_apk_def Let_def r1 v1 andThen_Inr r2 v2 by auto
    then show ?thesis using t2 by (auto simp add: new_events_def)
  qed
qed

subsection \<open>Regular application path\<close>

lemma install_app_skipped:
  "optional \<Longrightarrow> cfg \<noteq> ''y'' \<Longrightarrow>
     install_app env cfg apk description optional w
       = (Inr (), logging INFO ''Skipping installation of {description}.'' w)"
  by (simp add: install_app_def)

lemma install_app_advances:
  assumes "advances w0 w S" and "\<not> optional \<or> cfg = ''y'' \<Longrightarrow> component_events apk \<subseteq> S"
  shows "advances w0 (snd (install_app env cfg apk description optional w)) S"
proof (cases "\<not> optional \<or> cfg = ''y''")
  case False
  then show ?thesis using assms(1) by (simp add: install_app_skipped advances_logging)
next
  case True
  then have S: "component_events apk \<subseteq> S" by (rule assms(2))
  have d: "install_app env cfg apk description optional w =
     (let w = logging INFO ''\<newline>Installing {description} ({apk_filename})...'' w;
               app_url = BASE_APK_RELEASE_URL @ apk;
               not_downloaded =
                 (\<lambda>w. (Inr (), logging ERROR ''Failed to download {description}. Check URL.'' w))
           in andThen (download_file env app_url apk TEMP_DIR w)
                (\<lambda>local_path w.
                   case local_path of
                     None \<Rightarrow> not_downloaded w
                   | Some path \<Rightarrow>
                       if path = [] then not_downloaded w
                       else
                         andThen (get_package_name_from_apk env path w)
                           (\<lambda>package_name_for_app w.
                              andThen (push_and_install_apk env path ''/data/local/tmp/'' w)
                                (\<lambda>ok w.
                                   (Inr (),
                                    if ok then
                                      logging INFO ''{description} successfully installed.'' w
                                    else w)))))"
    using True by (auto simp add: install_app_def)
  show ?thesis
    unfolding d Let_def using S assms(1)
    by (auto intro!: advances_andThen download_file_advances advances_logging
        get_package_name_advances push_and_install_advances
        simp add: component_events_def push_command_def install_command_def
        dest!: download_file_path split: option.splits)
qed

lemma install_apps_advances:
  assumes "advances w0 w S"
    and "\<forall>(apk, description, optional) \<in> set comps.
           apk \<notin> set (map fst LAUNCHERS) \<and> (\<not> optional \<or> cfg = ''y'') \<longrightarrow> component_events apk \<subseteq> S"
  shows "advances w0 (snd (install_apps env cfg comps w)) S"
  using assms
proof (induction comps arbitrary: w)
  case Nil
  then show ?case by simp
next
  case (Cons c comps)
  obtain apk description optional where c: "c = (apk, description, optional)"
    by (cases c) auto
  show ?case
  proof (cases "apk \<in> set (map fst LAUNCHERS)")
    case True
    then show ?thesis using Cons c by simp
  next
    case False
    have "advances w0 (snd (install_app env cfg apk description optional w)) S"
      using Cons.prems c False by (intro install_app_advances) auto
    then show ?thesis
      using Cons c False by (auto intro!: advances_andThen)
  qed
qed

lemma path_join_nonempty: "a \<noteq> [] \<Longrightarrow> path_join a b \<noteq> []"
  by (cases b) (auto simp add: path_join_def)

lemma new_events_cong: "trace w2 = trace w3 \<Longrightarrow> new_events w w2 = new_events w w3"
  by (simp add: new_events_def)

lemma resolvable_advances: "advances w w' S \<Longrightarrow> resolvable env w apk \<Longrightarrow> resolvable env w' apk"
  by (auto simp add: advances_def resolvable_def)

lemma install_app_pushes:
  assumes bp: "binaries_present env" and dec: "\<not> optional \<or> cfg = ''y''"
    and res: "resolvable env w apk"
  shows "fst (install_app env cfg apk description optional w) = Inr ()
       \<and> Exec (push_command apk)
           \<in> set (new_events w (snd (install_app env cfg apk description optional w)))
       \<and> (commands_succeed env \<longrightarrow>
            Exec (install_command apk)
              \<in> set (new_events w (snd (install_app env cfg apk description optional w))))"
proof -
  let ?w0 = "logging INFO ''\<newline>Installing {description} ({apk_filename})...'' w"
  let ?url = "BASE_APK_RELEASE_URL @ apk"
  let ?path = "path_join TEMP_DIR apk"
  have "fst (download_file env ?url apk TEMP_DIR ?w0) = Inr (Some ?path)"
    using res by (intro download_file_resolves) (simp add: resolvable_def)
  then obtain w1 where dl: "download_file env ?url apk TEMP_DIR ?w0 = (Inr (Some ?path), w1)"
    by (cases "download_file env ?url apk TEMP_DIR ?w0") auto
  have a1: "advances w w1 UNIV"
    using download_file_advances [of w ?w0 UNIV ?url env apk TEMP_DIR] dl
    by (simp add: advances_logging)
  have ne: "?path \<noteq> []" by (rule path_join_nonempty) (simp add: TEMP_DIR_def)
  obtain v w2 where gp: "get_package_name_from_apk env ?path w1 = (Inr v, w2)"
    using get_package_name_present [OF bp, of ?path w1]
    by (cases "get_package_name_from_apk env ?path w1") auto
  have a2: "advances w1 w2 UNIV"
    using get_package_name_advances [of w1 w1 UNIV ?path env] gp by simp
  let ?r3 = "push_and_install_apk env ?path ''/data/local/tmp/'' w2"
  obtain r w3 where r3: "?r3 = (r, w3)" by (cases ?r3) blast
  from push_and_install_pushes [OF bp, of ?path "''/data/local/tmp/''" w2]
  obtain ok where ok: "r = Inr ok"
    and push: "Exec (push_command apk) \<in> set (new_events w2 w3)"
    and inst: "commands_succeed env \<Longrightarrow> Exec (install_command apk) \<in> set (new_events w2 w3)"
    unfolding r3 by (auto simp add: push_command_def install_command_def)
  have a3: "advances w2 w3 UNIV"
    using push_and_install_advances [of w2 w2 UNIV ?path "''/data/local/tmp/''" env]
    unfolding r3 by simp
  have a12: "advances w w2 UNIV" using a1 a2 by (rule advances_trans)
  have res: "install_app env cfg apk description optional w
               = (Inr (), if ok then logging INFO ''{description} successfully installed.'' w3
                          else w3)"
    using dec ne unfolding install_app_def Let_def
    by (simp add: dl gp r3 ok)
  have tr: "new_events w (snd (install_app env cfg apk description optional w))
              = new_events w w3"
    unfolding res by (simp add: new_events_def)
  show ?thesis
    unfolding tr using res push inst new_events_later [OF a12 a3] by simp
qed

lemma install_app_returns:
  assumes bp: "binaries_present env"
  shows "fst (install_app env cfg apk description optional w) = Inr ()"
proof (cases "\<not> optional \<or> cfg = ''y''")
  case False
  then show ?thesis by (simp add: install_app_skipped)
next
  case True
  let ?w0 = "logging INFO ''\<newline>Installing {description} ({apk_filename})...'' w"
  let ?url = "BASE_APK_RELEASE_URL @ apk"
  obtain p w1 where dl: "download_file env ?url apk TEMP_DIR ?w0 = (Inr p, w1)"
    using download_file_returns [of env ?url apk TEMP_DIR ?w0]
    by (cases "download_file env ?url apk TEMP_DIR ?w0") auto
  show ?thesis
  proof (cases p)
    case None
    then show ?thesis using True unfolding install_app_def Let_def by (simp add: dl)
  next
    case (Some path)
    obtain v w2 where gp: "get_package_name_from_apk env path w1 = (Inr v, w2)"
      using get_package_name_present [OF bp, of path w1]
      by (cases "get_package_name_from_apk env path w1") auto
    obtain ok w3 where r3: "push_and_install_apk env path ''/data/local/tmp/'' w2 = (Inr ok, w3)"
      using push_and_install_pushes [OF bp, of path "''/data/local/tmp/''" w2]
      by (cases "push_and_install_apk env path ''/data/local/tmp/'' w2") auto
    show ?thesis using True Some unfolding install_app_def Let_def by (simp add: dl gp r3)
  qed
qed

lemma install_apps_pushes:
  assumes bp: "binaries_present env"
  shows "fst (install_apps env cfg comps w) = Inr ()
       \<and> (\<forall>(apk, description, optional) \<in> set comps.
            apk \<notin> set (map fst LAUNCHERS) \<and> (\<not> optional \<or> cfg = ''y'') \<and> resolvable env w apk \<longrightarrow>
              Exec (push_command apk) \<in> set (new_events w (snd (install_apps env cfg comps w)))
              \<and> (commands_succeed env \<longrightarrow>
                   Exec (install_command apk)
                     \<in> set (new_events w (snd (install_apps env cfg comps w)))))"
proof (induction comps arbitrary: w)
  case Nil
  show ?case by simp
next
  case (Cons c comps)
  obtain apk description optional where c: "c = (apk, description, optional)"
    by (cases c) auto
  show ?case
  proof (cases "apk \<in> set (map fst LAUNCHERS)")
    case True
    then show ?thesis using Cons [of w] c by auto
  next
    case False
    let ?r1 = "install_app env cfg apk description optional w"
    obtain w1 where r1: "?r1 = (Inr (), w1)"
      using install_app_returns [OF bp, of cfg apk description optional w] by (cases ?r1) auto
    have a1: "advances w w1 UNIV"
      using install_app_advances [of w w UNIV optional cfg apk env description] r1 by simp
    let ?w' = "snd (install_apps env cfg comps w1)"
    have a2: "advances w1 ?w' UNIV"
      using install_apps_advances [of w1 w1 UNIV comps cfg env] by simp
    have step: "install_apps env cfg (c # comps) w = install_apps env cfg comps w1"
      using False c r1 by simp
    have head: "Exec (push_command apk) \<in> set (new_events w ?w')
                \<and> (commands_succeed env \<longrightarrow> Exec (install_command apk) \<in> set (new_events w ?w'))"
      if "(\<not> optional \<or> cfg = ''y'') \<and> resolvable env w apk"
      using install_app_pushes [OF bp, of optional cfg w apk description] that r1
        new_events_earlier [OF a1 a2] by auto
    have tail: "Exec (push_command a) \<in> set (new_events w ?w')
                \<and> (commands_succeed env \<longrightarrow> Exec (install_command a) \<in> set (new_events w ?w'))"
      if "(a, d, opt) \<in> set comps" "a \<notin> set (map fst LAUNCHERS)" "\<not> opt \<or> cfg = ''y''"
         "resolvable env w a" for a d opt
    proof -
      have "resolvable env w1 a" using a1 that(4) by (rule resolvable_advances)
      with Cons [of w1] that have
        "Exec (push_command a) \<in> set (new_events w1 ?w')
         \<and> (commands_succeed env \<longrightarrow> Exec (install_command a) \<in> set (new_events w1 ?w'))"
        by fastforce
      then show ?thesis using new_events_later [OF a1 a2] by blast
    qed
    show ?thesis
      unfolding step using Cons [of w1] head tail c by auto
  qed
qed

lemma aurora_apart:
  "(component_events ''Music.apk'' \<union> component_events ''Phone.apk''
    \<union> component_events ''Files.apk'' \<union> component_events ''Browser.apk''
    \<union> component_events ''Calc.apk'' \<union> component_events ''Recorder.apk''
    \<union> component_events ''Calender.apk'' \<union> component_events ''Gallery.apk'')
   \<inter> component_events ''Aurora.apk'' = {}"
  by (simp add: component_events_def push_command_def install_command_def path_join_def
      basename_def TEMP_DIR_def ADB_PATH_def AAPT_PATH_def BASE_APK_RELEASE_URL_def)

text \<open>
  Claim C6. In the loop over the application components, a component marked optional
  with the flag different from \<open>y\<close> has no effect at all: it is not downloaded, not
  inspected, not pushed and not installed, also when its asset is in the cache. When
  adb and aapt are on the execution path the loop returns normally, and every
  mandatory component, and every optional one when the flag is \<open>y\<close>, whose asset
  resolves is pushed, whatever the flag; when every command succeeds it is installed
  as well.
\<close>

theorem optional_component_gating:
  "(\<forall>(apk, description, optional) \<in> set LINEAGEOS_COMPONENTS.
      optional \<and> cfg \<noteq> ''y'' \<longrightarrow>
        set (new_events w (snd (install_apps env cfg LINEAGEOS_COMPONENTS w)))
          \<inter> component_events apk = {})
   \<and> (binaries_present env \<longrightarrow>
        fst (install_apps env cfg LINEAGEOS_COMPONENTS w) = Inr ()
        \<and> (\<forall>(apk, description, optional) \<in> set LINEAGEOS_COMPONENTS.
              (\<not> optional \<or> cfg = ''y'') \<and> resolvable env w apk \<longrightarrow>
                Exec (push_command apk)
                  \<in> set (new_events w (snd (install_apps env cfg LINEAGEOS_COMPONENTS w)))
                \<and> (commands_succeed env \<longrightarrow>
                     Exec (install_command apk)
                       \<in> set (new_events w (snd (install_apps env cfg LINEAGEOS_COMPONENTS w))))))"
proof (intro conjI impI)
  let ?w' = "snd (install_apps env cfg LINEAGEOS_COMPONENTS w)"
  let ?S = "component_events ''Music.apk'' \<union> component_events ''Phone.apk''
    \<union> component_events ''Files.apk'' \<union> component_events ''Browser.apk''
    \<union> component_events ''Calc.apk'' \<union> component_events ''Recorder.apk''
    \<union> component_events ''Calender.apk'' \<union> component_events ''Gallery.apk''"
  have "set (new_events w ?w') \<inter> component_events ''Aurora.apk'' = {}" if "cfg \<noteq> ''y''"
  proof -
    have "advances w ?w' ?S"
      using that by (intro install_apps_advances) (auto simp add: LINEAGEOS_COMPONENTS_def)
    then have "set (new_events w ?w') \<subseteq> ?S" by (rule advances_events)
    then show ?thesis using aurora_apart by blast
  qed
  then show "\<forall>(apk, description, optional) \<in> set LINEAGEOS_COMPONENTS.
      optional \<and> cfg \<noteq> ''y'' \<longrightarrow> set (new_events w ?w') \<inter> component_events apk = {}"
    by (simp add: LINEAGEOS_COMPONENTS_def)
next
  assume bp: "binaries_present env"
  from install_apps_pushes [OF bp, of cfg LINEAGEOS_COMPONENTS w]
  show "fst (install_apps env cfg LINEAGEOS_COMPONENTS w) = Inr ()" by blast
next
  assume bp: "binaries_present env"
  have nl: "\<forall>(apk, description, optional) \<in> set LINEAGEOS_COMPONENTS. apk \<notin> set (map fst LAUNCHERS)"
    by (simp add: LINEAGEOS_COMPONENTS_def LAUNCHERS_def)
  from install_apps_pushes [OF bp, of cfg LINEAGEOS_COMPONENTS w] nl
  show "\<forall>(apk, description, optional) \<in> set LINEAGEOS_COMPONENTS.
              (\<not> optional \<or> cfg = ''y'') \<and> resolvable env w apk \<longrightarrow>
                Exec (push_command apk)
                  \<in> set (new_events w (snd (install_apps env cfg LINEAGEOS_COMPONENTS w)))
                \<and> (commands_succeed env \<longrightarrow>
                     Exec (install_command apk)
                       \<in> set (new_events w (snd (install_apps env cfg LINEAGEOS_COMPONENTS w))))"
    by fastforce
qed

theorem optional_component_gating_witness:
  "set (new_events fresh_world (snd (install_apps env_served ''n'' LINEAGEOS_COMPONENTS fresh_world)))
     \<inter> component_events ''Aurora.apk'' = {}
   \<and> fst (install_apps env_served ''n'' LINEAGEOS_COMPONENTS fresh_world) = Inr ()
   \<and> Exec (push_command ''Music.apk'')
       \<in> set (new_events fresh_world
                (snd (install_apps env_served ''n'' LINEAGEOS_COMPONENTS fresh_world)))
   \<and> Exec (install_command ''Music.apk'')
       \<in> set (new_events fresh_world
                (snd (install_apps env_served ''n'' LINEAGEOS_COMPONENTS fresh_world)))"
proof -
  have bp: "binaries_present env_served" by (simp add: binaries_present_def env_served_def)
  have cs: "commands_succeed env_served" by (simp add: commands_succeed_def env_served_def)
  have rs: "resolvable env_served fresh_world ''Music.apk''"
    by (simp add: resolvable_def env_served_def)
  have n: "''n'' \<noteq> ''y''" by simp
  have m1: "(''Aurora.apk'', ''Aurora Store (App Store)'', True) \<in> set LINEAGEOS_COMPONENTS"
    by (simp add: LINEAGEOS_COMPONENTS_def)
  have m2: "(''Music.apk'', ''Music Player'', False) \<in> set LINEAGEOS_COMPONENTS"
    by (simp add: LINEAGEOS_COMPONENTS_def)
  from optional_component_gating [of "''n''" fresh_world env_served] bp cs rs n m1 m2
  show ?thesis by fastforce
qed

subsection \<open>Launcher path without the package identifier\<close>

lemma get_package_name_unavailable:
  "\<not> aapt_available w \<Longrightarrow>
     get_package_name_from_apk env apk_path w
       = (Inr None,
          logging WARNING ''AAPT is unavailable. Cannot automatically determine package name.'' w)"
  by (simp add: get_package_name_from_apk_def)

lemma install_launcher_degraded:
  assumes na: "\<not> aapt_available w"
  shows "\<exists>w1. install_launcher env True chosen w = (Inr (), w1)
           \<and> advances w w1 {Fetch (BASE_APK_RELEASE_URL @ chosen)}
           \<and> (path_exists w (path_join TEMP_DIR chosen) \<longrightarrow>
                (ERROR, ''ERROR: Failed to determine package name for {chosen_launcher_apk}. Setting default launcher might not work.'')
                  \<in> set (logged w1)
                \<and> (INFO, ''Please ensure your selected launcher APK is a valid APK file and that AAPT is working correctly.'')
                  \<in> set (logged w1))"
proof -
  let ?w0 = "logging INFO ''Selected launcher: {chosen_launcher_apk}''
               (print_step ''Installing Launcher'' w)"
  let ?url = "BASE_APK_RELEASE_URL @ chosen"
  let ?path = "path_join TEMP_DIR chosen"
  obtain p w1 where dl: "download_file env ?url chosen TEMP_DIR ?w0 = (Inr p, w1)"
    and p: "p = None \<or> p = Some ?path"
    using download_file_returns [of env ?url chosen TEMP_DIR ?w0]
    by (cases "download_file env ?url chosen TEMP_DIR ?w0") auto
  have a1: "advances w w1 {Fetch ?url}"
    using download_file_advances [of w ?w0 "{Fetch ?url}" ?url env chosen TEMP_DIR] dl
    by (simp add: advances_logging advances_print_step)
  then have na1: "\<not> aapt_available w1" using na by (simp add: advances_def)
  have ne: "?path \<noteq> []" by (rule path_join_nonempty) (simp add: TEMP_DIR_def)
  have cached: "p = Some ?path" if "path_exists w ?path"
    using download_file_resolves [of ?w0 TEMP_DIR chosen env ?url] that dl by simp
  have combine: "advances w w2 {Fetch ?url}" if "advances w1 w2 {}" for w2
    using a1 advances_mono [OF that, of "{Fetch ?url}"] by (blast intro: advances_trans)
  show ?thesis
  proof (cases p)
    case None
    then have "\<exists>w2. install_launcher env True chosen w = (Inr (), w2) \<and> advances w1 w2 {}"
      unfolding install_launcher_def Let_def by (auto simp add: dl intro!: advances_logging)
    then show ?thesis using combine cached None by auto
  next
    case (Some path)
    then have path: "path = ?path" using p by simp
    have "\<exists>w2. install_launcher env True chosen w = (Inr (), w2) \<and> advances w1 w2 {}
            \<and> (ERROR, ''ERROR: Failed to determine package name for {chosen_launcher_apk}. Setting default launcher might not work.'')
                  \<in> set (logged w2)
            \<and> (INFO, ''Please ensure your selected launcher APK is a valid APK file and that AAPT is working correctly.'')
                  \<in> set (logged w2)"
      unfolding install_launcher_def Let_def
      using ne by (auto simp add: dl Some path get_package_name_unavailable [OF na1]
          intro!: advances_logging)
    then show ?thesis using combine by auto
  qed
qed

lemma set_wallpaper_advances:
  "advances w0 w S \<Longrightarrow>
   Exec [ADB_PATH, ''push'', local_image_path, ''/sdcard/Download/'' @ basename local_image_path] \<in> S \<Longrightarrow>
   Exec [ADB_PATH, ''shell'', ''cmd'', ''wallpaper'', ''set'',
         ''/sdcard/Download/'' @ basename local_image_path] \<in> S \<Longrightarrow>
     advances w0 (snd (set_wallpaper env local_image_path w)) S"
  unfolding set_wallpaper_def Let_def
  by (auto intro!: advances_andThen run_command_advances advances_logging)

lemma andThen_returns:
  assumes "\<exists>a. fst r = Inr a" and "\<And>a w. \<exists>b. fst (f a w) = Inr b"
  shows "\<exists>b. fst (andThen r f) = Inr b"
  using assms by (cases r) (auto simp add: andThen_fst)

lemma set_wallpaper_present:
  "binaries_present env \<Longrightarrow> \<exists>ok. fst (set_wallpaper env local_image_path w) = Inr ok"
  unfolding set_wallpaper_def Let_def
  by (intro andThen_returns run_command_present) (auto intro!: andThen_returns run_command_present)

lemma install_wallpaper_advances:
  "advances w0 w S \<Longrightarrow> wallpaper_events \<subseteq> S \<Longrightarrow>
     advances w0 (snd (install_wallpaper env w)) S"
  unfolding install_wallpaper_def Let_def
  by (auto intro!: advances_andThen download_file_advances advances_logging advances_print_step
      set_wallpaper_advances simp add: wallpaper_events_def dest!: download_file_path
      split: option.splits)

lemma install_wallpaper_returns:
  assumes bp: "binaries_present env"
  shows "fst (install_wallpaper env w) = Inr ()"
proof -
  let ?w0 = "print_step ''Installing Wallpaper'' w"
  let ?url = "BASE_APK_RELEASE_URL @ WALLPAPER_FILENAME"
  obtain p w1 where dl: "download_file env ?url WALLPAPER_FILENAME TEMP_DIR ?w0 = (Inr p, w1)"
    using download_file_returns [of env ?url WALLPAPER_FILENAME TEMP_DIR ?w0]
    by (cases "download_file env ?url WALLPAPER_FILENAME TEMP_DIR ?w0") auto
  show ?thesis
  proof (cases p)
    case None
    then show ?thesis unfolding install_wallpaper_def Let_def by (simp add: dl)
  next
    case (Some path)
    obtain ok w2 where sw: "set_wallpaper env path w1 = (Inr ok, w2)"
      using set_wallpaper_present [OF bp, of path w1] by (cases "set_wallpaper env path w1") auto
    show ?thesis using Some unfolding install_wallpaper_def Let_def by (simp add: dl sw)
  qed
qed

lemma install_degraded_run:
  assumes na: "\<not> aapt_available w" and bp: "binaries_present env"
  shows "\<exists>w1 w'. install_launcher env True chosen w = (Inr (), w1)
           \<and> advances w w1 {Fetch (BASE_APK_RELEASE_URL @ chosen)}
           \<and> (path_exists w (path_join TEMP_DIR chosen) \<longrightarrow>
                (ERROR, ''ERROR: Failed to determine package name for {chosen_launcher_apk}. Setting default launcher might not work.'')
                  \<in> set (logged w1)
                \<and> (INFO, ''Please ensure your selected launcher APK is a valid APK file and that AAPT is working correctly.'')
                  \<in> set (logged w1))
           \<and> install_liteageos_components env True chosen cfg w = (Inr (), w')
           \<and> advances w w' (run_events chosen)
           \<and> (INFO, ''Please check your phone. Additional manual launcher setup might be required.'')
                \<in> set (logged w')"
proof -
  from install_launcher_degraded [OF na, of env chosen]
  obtain w1 where l: "install_launcher env True chosen w = (Inr (), w1)"
    and a1: "advances w w1 {Fetch (BASE_APK_RELEASE_URL @ chosen)}"
    and m: "path_exists w (path_join TEMP_DIR chosen) \<longrightarrow>
                (ERROR, ''ERROR: Failed to determine package name for {chosen_launcher_apk}. Setting default launcher might not work.'')
                  \<in> set (logged w1)
                \<and> (INFO, ''Please ensure your selected launcher APK is a valid APK file and that AAPT is working correctly.'')
                  \<in> set (logged w1)"
    by blast
  let ?w1 = "print_step ''Installing LineageOS Applications'' w1"
  obtain w2 where ap: "install_apps env cfg LINEAGEOS_COMPONENTS ?w1 = (Inr (), w2)"
    using install_apps_pushes [OF bp, of cfg LINEAGEOS_COMPONENTS ?w1]
    by (cases "install_apps env cfg LINEAGEOS_COMPONENTS ?w1") auto
  have a1': "advances w w1 (run_events chosen)"
    using a1 by (rule advances_mono) (simp add: run_events_def)
  have a2: "advances w w2 (run_events chosen)"
    using install_apps_advances [of w ?w1 "run_events chosen" LINEAGEOS_COMPONENTS cfg env] ap a1'
    by (force simp add: advances_print_step run_events_def)
  obtain w3 where wp: "install_wallpaper env w2 = (Inr (), w3)"
    using install_wallpaper_returns [OF bp, of w2] by (cases "install_wallpaper env w2") auto
  have "wallpaper_events \<subseteq> run_events chosen" by (auto simp add: run_events_def)
  then have a3: "advances w w3 (run_events chosen)"
    using install_wallpaper_advances [of w w2 "run_events chosen" env] wp a2 by simp
  let ?w' = "logging INFO
               ''Please check your phone. Additional manual launcher setup might be required.''
               (logging INFO ''\<newline>--- LiteageOS Installation Complete! ---'' w3)"
  have r: "install_liteageos_components env True chosen cfg w = (Inr (), ?w')"
    unfolding install_liteageos_components_def by (simp add: l ap wp)
  have a4: "advances w ?w' (run_events chosen)"
    using a3 by (intro advances_logging)
  have fin: "(INFO, ''Please check your phone. Additional manual launcher setup might be required.'')
                \<in> set (logged ?w')"
    by (simp only: logging_fields set_append list.set) blast
  from l a1 m r a4 fin show ?thesis by blast
qed

lemma no_home_activity_in_run:
  "Exec [ADB_PATH, ''shell'', ''cmd'', ''package'', ''set-home-activity'', name] \<notin> run_events chosen"
  by (auto simp add: run_events_def component_events_def wallpaper_events_def push_command_def
      install_command_def ADB_PATH_def AAPT_PATH_def)

lemma launcher_not_in_run:
  "\<forall>chosen \<in> set (map fst LAUNCHERS).
     Exec (push_command chosen) \<notin> run_events chosen
     \<and> Exec (install_command chosen) \<notin> run_events chosen"
  by (simp add: LAUNCHERS_def LINEAGEOS_COMPONENTS_def run_events_def component_events_def
      wallpaper_events_def push_command_def install_command_def path_join_def basename_def
      TEMP_DIR_def ADB_PATH_def AAPT_PATH_def WALLPAPER_FILENAME_def BASE_APK_RELEASE_URL_def)




subsection \<open>Uninstalling every package once\<close>

lemma collect_package_advances:
  assumes "advances w0 w S" and "Fetch (BASE_APK_RELEASE_URL @ apk) \<in> S"
    and "Exec [AAPT_PATH, ''dump'', ''badging'', path_join TEMP_DIR apk] \<in> S"
  shows "advances w0 (snd (collect_package env apk pkgs w)) S"
  unfolding collect_package_def Let_def using assms
  by (auto intro!: advances_andThen download_file_advances advances_logging
      get_package_name_advances split: option.splits)

lemma collect_package_returns:
  assumes bp: "binaries_present env"
  shows "\<exists>more. fst (collect_package env apk pkgs w) = Inr (pkgs @ more)"
proof -
  let ?path = "path_join TEMP_DIR apk"
  let ?d = "if \<not> path_exists w ?path
            then download_file env (BASE_APK_RELEASE_URL @ apk) apk TEMP_DIR w else (Inr None, w)"
  obtain p w1 where d: "?d = (Inr p, w1)"
    using download_file_returns [of env "BASE_APK_RELEASE_URL @ apk" apk TEMP_DIR w]
    by (cases ?d) (auto split: if_splits)
  obtain v w2 where gp: "get_package_name_from_apk env ?path w1 = (Inr v, w2)"
    using get_package_name_present [OF bp, of ?path w1]
    by (cases "get_package_name_from_apk env ?path w1") auto
  have "fst (collect_package env apk pkgs w) = Inr pkgs
        \<or> (\<exists>name. fst (collect_package env apk pkgs w) = Inr (pkgs @ [name]))"
    unfolding collect_package_def Let_def d andThen_Inr
    by (cases v) (auto simp add: gp)
  then show ?thesis by (metis append_Nil2)
qed

lemma collect_packages_advances:
  assumes "advances w0 w S"
    and "\<forall>apk \<in> set apks. Fetch (BASE_APK_RELEASE_URL @ apk) \<in> S
           \<and> Exec [AAPT_PATH, ''dump'', ''badging'', path_join TEMP_DIR apk] \<in> S"
  shows "advances w0 (snd (collect_packages env apks pkgs w)) S"
  using assms
proof (induction apks arbitrary: w pkgs)
  case Nil
  then show ?case by simp
next
  case (Cons apk apks)
  have "advances w0 (snd (collect_package env apk pkgs w)) S"
    using Cons.prems by (intro collect_package_advances) auto
  then show ?case using Cons by (auto intro!: advances_andThen)
qed

lemma collect_packages_returns:
  assumes bp: "binaries_present env"
  shows "\<exists>more. fst (collect_packages env apks pkgs w) = Inr (pkgs @ more)"
proof (induction apks arbitrary: w pkgs)
  case Nil
  show ?case by simp
next
  case (Cons apk apks)
  obtain more w1 where c: "collect_package env apk pkgs w = (Inr (pkgs @ more), w1)"
    using collect_package_returns [OF bp, of apk pkgs w]
    by (cases "collect_package env apk pkgs w") auto
  from Cons [of "pkgs @ more" w1] obtain more' where
    "fst (collect_packages env apks (pkgs @ more) w1) = Inr (pkgs @ more @ more')" by auto
  then show ?case by (auto simp add: c)
qed

lemma packages_to_uninstall_summary:
  assumes bp: "binaries_present env"
  shows "\<exists>targets w1. packages_to_uninstall env w = (Inr targets, w1)
           \<and> advances w w1 collect_events
           \<and> {''app.lawnchair.nightly'', ''ch.deletescape.lawnchair'', ''org.lineageos.etar'',
               ''org.lineageos.aperture.dev'', ''com.android.deskclock''} \<subseteq> set targets"
proof -
  let ?c = "collect_packages env (map fst LINEAGEOS_COMPONENTS)
              [''app.lawnchair.nightly'', ''ch.deletescape.lawnchair''] w"
  obtain more w1 where c: "?c = (Inr ([''app.lawnchair.nightly'', ''ch.deletescape.lawnchair''] @ more), w1)"
    using collect_packages_returns [OF bp, of "map fst LINEAGEOS_COMPONENTS"
        "[''app.lawnchair.nightly'', ''ch.deletescape.lawnchair'']" w]
    by (cases ?c) auto
  have a: "advances w w1 collect_events"
    using collect_packages_advances [of w w collect_events "map fst LINEAGEOS_COMPONENTS" env
        "[''app.lawnchair.nightly'', ''ch.deletescape.lawnchair'']"] c
    by (auto simp add: collect_events_def)
  show ?thesis
    unfolding packages_to_uninstall_def Let_def using a c by auto
qed

lemma uninstall_all_trace:
  assumes bp: "binaries_present env"
  shows "\<exists>w'. uninstall_all env packages w = (Inr (), w')
           \<and> trace w' = trace w @ map (\<lambda>p. Exec (uninstall_command p)) packages"
proof (induction packages arbitrary: w)
  case Nil
  show ?case by simp
next
  case (Cons package rest)
  let ?w0 = "logging INFO ''Attempting to uninstall package: {package}'' w"
  obtain r w1 where r: "run_command env (uninstall_command package) False True ''ADB'' ?w0 = (Inr r, w1)"
    using run_command_present [OF bp, of "uninstall_command package" False True "''ADB''" ?w0]
    by (cases "run_command env (uninstall_command package) False True ''ADB'' ?w0") auto
  have t: "trace w1 = trace w @ [Exec (uninstall_command package)]"
    using run_command_trace [of env "uninstall_command package" False True "''ADB''" ?w0] r by simp
  let ?w2 = "if truthy r then
                   logging INFO ''Package {package} successfully uninstalled (for current user).'' w1
                 else
                   logging WARNING
                     ''Failed to uninstall package {package}. It might not be installed or is a system app.'' w1"
  from Cons [of ?w2] obtain w' where
    "uninstall_all env rest ?w2 = (Inr (), w')"
    "trace w' = trace ?w2 @ map (\<lambda>p. Exec (uninstall_command p)) rest" by blast
  then show ?case using t by (auto simp add: Let_def r)
qed

lemma uninstall_command_inj [simp]: "uninstall_command p = uninstall_command q \<longleftrightarrow> p = q"
  by (simp add: uninstall_command_def)

lemma count_uninstall_once:
  "distinct ps \<Longrightarrow>
     count_list (map (\<lambda>p. Exec (uninstall_command p)) ps) (Exec (uninstall_command q))
       = (if q \<in> set ps then 1 else 0)"
  by (induction ps) auto

lemma uninstall_not_collect: "Exec (uninstall_command p) \<notin> collect_events"
  by (auto simp add: collect_events_def uninstall_command_def ADB_PATH_def AAPT_PATH_def)



end
